theory Spec2Isabelle
  imports Main
begin

section \<open>Data model\<close>

text \<open>
  Go \<open>error\<close> values are modelled by their message. The errors made by the configuration
  dispenser (\<open>d.Err\<close>, \<open>d.Errf\<close>, \<open>d.ArgErr\<close>) carry the message only: the file and line
  that the dispenser adds around it are left out. \<open>Panic\<close> is a run-time panic (a nil
  pointer dereference), which is not a returned error.
\<close>

datatype error = Error string | Panic string

type_synonym AgentType = string

definition AIAssistant :: AgentType where "AIAssistant = ''AI Assistant''"
definition AIDataScraper :: AgentType where "AIDataScraper = ''AI Data Scraper''"
definition AISearchCrawler :: AgentType where "AISearchCrawler = ''AI Search Crawler''"
definition Archiver :: AgentType where "Archiver = ''Archiver''"
definition DeveloperHelper :: AgentType where "DeveloperHelper = ''Developer Helper''"
definition Fetcher :: AgentType where "Fetcher = ''Fetcher''"
definition HeadlessBrowser :: AgentType where "HeadlessBrowser = ''Headless Browser''"
definition IntelligenceGatherer :: AgentType where "IntelligenceGatherer = ''Intelligence Gatherer''"
definition Scraper :: AgentType where "Scraper = ''Scraper''"
definition SearchEngineCrawlers :: AgentType where "SearchEngineCrawlers = ''Search Engine Crawler''"
definition SEOCrawler :: AgentType where "SEOCrawler = ''SEO Crawler''"
definition Uncategorized :: AgentType where "Uncategorized = ''Uncategorized''"
definition UndocumentedAIAgent :: AgentType where "UndocumentedAIAgent = ''Undocumented AI Agent''"

definition allAgentTypes :: "AgentType list" where
  "allAgentTypes =
     [AIAssistant, AIDataScraper, AISearchCrawler, Archiver, DeveloperHelper, Fetcher,
      HeadlessBrowser, IntelligenceGatherer, Scraper, SearchEngineCrawlers, SEOCrawler,
      Uncategorized, UndocumentedAIAgent]"

text \<open>
  The structs \<open>RobotsTxt\<close> and \<open>Knownagents\<close>. The unexported field \<open>text\<close> is \<open>text'\<close>
  here; the pointer \<open>*RobotsTxt\<close> is an option (\<open>nil\<close> is \<open>None\<close>); the logger is not
  modelled. Package \<open>caddydarkvisitors\<close> declares the same two structs under the name
  \<open>Darkvisitors\<close>.
\<close>

record RobotsTxt =
  AgentTypes :: "AgentType list"
  Disallow :: string
  text' :: string

record Knownagents =
  AccessToken :: string
  RobotsTxt :: "RobotsTxt option"

type_synonym Darkvisitors = Knownagents

definition new_RobotsTxt :: RobotsTxt where
  "new_RobotsTxt = \<lparr>AgentTypes = [], Disallow = [], text' = []\<rparr>"

definition zero_Knownagents :: Knownagents where
  "zero_Knownagents = \<lparr>AccessToken = [], RobotsTxt = None\<rparr>"

section \<open>The configuration dispenser of the host\<close>

text \<open>
  \<open>caddyfile.Dispenser\<close> belongs to the host web server (package
  \<open>github.com/caddyserver/caddy/v2/caddyconfig/caddyfile\<close>), not to this repository. The
  parser below drives it through \<open>Next\<close>, \<open>NextArg\<close>, \<open>NextBlock\<close>, \<open>Nesting\<close>, \<open>Val\<close>,
  \<open>Err\<close>, \<open>Errf\<close> and \<open>ArgErr\<close>; these follow the host's \<open>dispenser.go\<close>: a token list, a
  cursor that starts at \<open>-1\<close>, and a nesting level. Every method that moves the cursor
  returns the dispenser it leaves behind. A token carries its file, its chain of imports,
  its line, its text and the quote it was written in (\<open>0\<close> for none).
\<close>

record Token =
  File :: string
  imports' :: "string list"
  Line :: int
  Text :: string
  wasQuoted :: char

record Dispenser =
  tokens :: "Token list"
  cursor :: int
  nesting :: int

definition NewDispenser :: "Token list \<Rightarrow> Dispenser" where
  "NewDispenser ts = \<lparr>tokens = ts, cursor = -1, nesting = 0\<rparr>"

definition NumLineBreaks :: "Token \<Rightarrow> int" where
  "NumLineBreaks t =
     int (count_list (Text t) (CHR 0x0A)) + (if wasQuoted t = CHR ''<'' then 2 else 0)"

definition isNextOnNewLine :: "Token \<Rightarrow> Token \<Rightarrow> bool" where
  "isNextOnNewLine t1 t2 =
     (if File t1 \<noteq> File t2 then True
      else if imports' t1 \<noteq> imports' t2 then True
      else Line t1 + NumLineBreaks t1 < Line t2)"

definition Val :: "Dispenser \<Rightarrow> string" where
  "Val d =
     (if cursor d < 0 \<or> cursor d \<ge> int (length (tokens d)) then []
      else Text (tokens d ! nat (cursor d)))"

definition Nesting :: "Dispenser \<Rightarrow> int" where
  "Nesting d = nesting d"

definition Next :: "Dispenser \<Rightarrow> bool \<times> Dispenser" where
  "Next d =
     (if cursor d < int (length (tokens d)) - 1 then (True, d\<lparr>cursor := cursor d + 1\<rparr>)
      else (False, d))"

definition nextOnSameLine :: "Dispenser \<Rightarrow> bool \<times> Dispenser" where
  "nextOnSameLine d =
     (if cursor d < 0 then (True, d\<lparr>cursor := cursor d + 1\<rparr>)
      else if cursor d \<ge> int (length (tokens d)) - 1 then (False, d)
      else if \<not> isNextOnNewLine (tokens d ! nat (cursor d)) (tokens d ! nat (cursor d + 1))
        then (True, d\<lparr>cursor := cursor d + 1\<rparr>)
      else (False, d))"

definition NextArg :: "Dispenser \<Rightarrow> bool \<times> Dispenser" where
  "NextArg d =
     (let (same, d1) = nextOnSameLine d in
      if \<not> same then (False, d1)
      else if Val d1 = ''{'' then (False, d1\<lparr>cursor := cursor d1 - 1\<rparr>)
      else (True, d1))"

text \<open>
  \<open>NextBlock\<close>: inside a block (\<open>nesting > initialNestingLevel\<close>) it moves to the next token
  and counts a closing or opening brace that ends its line; the two tests
  \<open>d.Val() == "}" && !d.nextOnSameLine()\<close> and \<open>d.Val() == "{" && !d.nextOnSameLine()\<close>
  run in this order, and a \<open>nextOnSameLine\<close> that succeeds leaves the cursor moved.
  Outside, it opens the block: the brace must follow on the same line.
\<close>

definition NextBlock :: "int \<Rightarrow> Dispenser \<Rightarrow> bool \<times> Dispenser" where
  "NextBlock initialNestingLevel d =
     (if nesting d > initialNestingLevel then
        (let (found, d1) = Next d in
         if \<not> found then (False, d1)
         else
           (let (closes, d2) =
                  (if Val d1 = ''}'' then (let (same, d') = nextOnSameLine d1 in (\<not> same, d'))
                   else (False, d1));
                d3 =
                  (if closes then d2\<lparr>nesting := nesting d2 - 1\<rparr>
                   else if Val d2 = ''{'' then
                     (let (same, d') = nextOnSameLine d2 in
                      if \<not> same then d'\<lparr>nesting := nesting d' + 1\<rparr> else d')
                   else d2)
            in (nesting d3 > initialNestingLevel, d3)))
      else
        (let (same, d1) = nextOnSameLine d in
         if \<not> same then (False, d1)
         else if Val d1 \<noteq> ''{'' then (False, d1\<lparr>cursor := cursor d1 - 1\<rparr>)
         else
           (let (_, d2) = Next d1 in
            if Val d2 = ''}'' then (False, d2)
            else (True, d2\<lparr>nesting := nesting d2 + 1\<rparr>))))"

definition quoted :: "string \<Rightarrow> string" where
  "quoted s = CHR 0x27 # s @ [CHR 0x27]"

definition Err :: "Dispenser \<Rightarrow> string \<Rightarrow> error" where
  "Err d msg = Error msg"

definition ArgErr :: "Dispenser \<Rightarrow> error" where
  "ArgErr d =
     (if Val d = ''{'' then Err d (''unexpected token '' @ quoted ''{'' @ '', expecting argument'')
      else Err d (''wrong argument count or unexpected line ending after '' @ quoted (Val d)))"

subsection \<open>Cursor movement\<close>

text \<open>
  No method changes the tokens; a method that answers \<open>true\<close> has moved the cursor
  forward, and there was a position left to move to.
\<close>

lemma nextOnSameLine_step:
  "nextOnSameLine d = (b, d') \<Longrightarrow>
     tokens d' = tokens d \<and> nesting d' = nesting d \<and>
     (if b then cursor d' = cursor d + 1 \<and> cursor d < int (length (tokens d)) else d' = d)"
  by (auto simp: nextOnSameLine_def split: if_splits)

lemma Next_step:
  "Next d = (b, d') \<Longrightarrow>
     tokens d' = tokens d \<and> nesting d' = nesting d \<and>
     (if b then cursor d' = cursor d + 1 \<and> cursor d < int (length (tokens d)) else d' = d)"
  by (auto simp: Next_def split: if_splits)

lemma NextArg_step:
  "NextArg d = (b, d') \<Longrightarrow>
     tokens d' = tokens d \<and> nesting d' = nesting d \<and>
     (if b then cursor d' = cursor d + 1 \<and> cursor d < int (length (tokens d)) else d' = d)"
  by (auto simp: NextArg_def Let_def split: prod.splits if_splits dest!: nextOnSameLine_step)

lemma NextBlock_step:
  "NextBlock n d = (b, d') \<Longrightarrow>
     tokens d' = tokens d \<and> cursor d \<le> cursor d' \<and>
     (b \<longrightarrow> cursor d < cursor d' \<and> cursor d < int (length (tokens d)))"
  unfolding NextBlock_def Let_def
  by (auto split: prod.splits if_splits dest!: nextOnSameLine_step Next_step)

text \<open>
  \<open>RemainingArgs\<close> of the dispenser: the arguments left on the line, collected by
  \<open>for d.NextArg() { args = append(args, d.Val()) }\<close>.
\<close>

function RemainingArgs_loop :: "string list \<times> Dispenser \<Rightarrow> string list \<times> Dispenser" where
  "RemainingArgs_loop (args, d) =
     (let (found, d1) = NextArg d in
      if found then RemainingArgs_loop (args @ [Val d1], d1)
      else (args, d1))"
  by pat_completeness auto
termination
proof (relation "measure (\<lambda>(args, d). nat (int (length (tokens d)) - cursor d))", goal_cases)
  case 1
  show ?case by simp
next
  case (2 args d x found d1)
  then have "NextArg d = (True, d1)" by simp
  from NextArg_step [OF this] show ?case by simp
qed

declare RemainingArgs_loop.simps [simp del]

definition RemainingArgs :: "Dispenser \<Rightarrow> string list \<times> Dispenser" where
  "RemainingArgs d = RemainingArgs_loop ([], d)"

section \<open>Parsing the configuration block\<close>

text \<open>
  The loop \<open>for d.NextArg() { append(..., d.Val()) }\<close> of the \<open>agent_types\<close> case. It ends
  because every argument taken moves the cursor towards the end of the tokens.
\<close>

function agent_types_args :: "RobotsTxt \<times> Dispenser \<Rightarrow> RobotsTxt \<times> Dispenser" where
  "agent_types_args (rt, d) =
     (let (found, d1) = NextArg d in
      if found then agent_types_args (rt\<lparr>AgentTypes := AgentTypes rt @ [Val d1]\<rparr>, d1)
      else (rt, d1))"
  by pat_completeness auto
termination
proof (relation "measure (\<lambda>(rt, d). nat (int (length (tokens d)) - cursor d))", goal_cases)
  case 1
  show ?case by simp
next
  case (2 rt d x found d1)
  then have "NextArg d = (True, d1)" by simp
  from NextArg_step [OF this] show ?case by simp
qed

declare agent_types_args.simps [simp del]

text \<open>
  The body of the inner loop: the \<open>switch d.Val()\<close> inside \<open>robots_txt { ... }\<close>, with the
  cursor on the subdirective's name. An error return drops the half-built value, as
  \<open>parseCaddyfile\<close> does.
\<close>

definition robots_txt_subdirective ::
  "RobotsTxt \<times> Dispenser \<Rightarrow> error + RobotsTxt \<times> Dispenser" where
  "robots_txt_subdirective = (\<lambda>(rt, d).
     if Val d = ''agent_types'' then
       (let (ok, d1) = NextArg d in
        if \<not> ok then Inl (ArgErr d1)
        else if Val d1 = ''*'' then
          (let rt1 = rt\<lparr>AgentTypes := allAgentTypes\<rparr>; (found, d2) = NextArg d1 in
           if found then Inl (Err d2 (''unexpected argument '' @ quoted (Val d2)))
           else Inr (rt1, d2))
        else Inr (agent_types_args (rt\<lparr>AgentTypes := AgentTypes rt @ [Val d1]\<rparr>, d1)))
     else if Val d = ''disallow'' then
       (let (ok, d1) = NextArg d in
        if \<not> ok then Inl (ArgErr d1)
        else Inr (rt\<lparr>Disallow := Val d1\<rparr>, d1))
     else Inl (Err d (''unknown subdirective '' @ quoted (Val d))))"

lemma agent_types_args_step:
  "agent_types_args (rt, d) = (rt', d') \<Longrightarrow> tokens d' = tokens d \<and> cursor d \<le> cursor d'"
proof (induction "(rt, d)" arbitrary: rt d rule: agent_types_args.induct)
  case (1 rt d)
  obtain found d1 where n: "NextArg d = (found, d1)" by (cases "NextArg d")
  show ?case
  proof (cases found)
    case True
    with n 1(2)
    have "agent_types_args (rt\<lparr>AgentTypes := AgentTypes rt @ [Val d1]\<rparr>, d1) = (rt', d')"
      by (simp add: agent_types_args.simps [of rt d])
    from 1(1) [OF refl n [symmetric] True this] NextArg_step [OF n] True show ?thesis by simp
  next
    case False
    with n 1(2) NextArg_step [OF n] show ?thesis
      by (simp add: agent_types_args.simps [of rt d])
  qed
qed

lemma robots_txt_subdirective_step:
  assumes "robots_txt_subdirective (rt, d) = Inr (rt', d')"
  shows "tokens d' = tokens d \<and> cursor d \<le> cursor d'"
proof -
  obtain ok d1 where n1: "NextArg d = (ok, d1)" by (cases "NextArg d")
  obtain found d2 where n2: "NextArg d1 = (found, d2)" by (cases "NextArg d1")
  obtain rt3 d3
    where r: "agent_types_args (rt\<lparr>AgentTypes := AgentTypes rt @ [Val d1]\<rparr>, d1) = (rt3, d3)"
    by (cases "agent_types_args (rt\<lparr>AgentTypes := AgentTypes rt @ [Val d1]\<rparr>, d1)")
  from assms n1 n2 r have "ok \<and> (d' = d1 \<or> d' = d2 \<or> d' = d3)"
    by (auto simp: robots_txt_subdirective_def split: if_splits)
  with NextArg_step [OF n1] NextArg_step [OF n2] agent_types_args_step [OF r]
  show ?thesis by (auto split: if_splits)
qed

text \<open>The inner loop \<open>for nesting := d.Nesting(); d.NextBlock(nesting); { ... }\<close>.\<close>

function robots_txt_block ::
  "int \<Rightarrow> RobotsTxt \<times> Dispenser \<Rightarrow> error + RobotsTxt \<times> Dispenser" where
  "robots_txt_block nest (rt, d) =
     (let (found, d1) = NextBlock nest d in
      if \<not> found then Inr (rt, d1)
      else (case robots_txt_subdirective (rt, d1) of
              Inl e \<Rightarrow> Inl e
            | Inr (rt2, d2) \<Rightarrow> robots_txt_block nest (rt2, d2)))"
  by pat_completeness auto
termination
proof (relation "measure (\<lambda>(nest, rt, d). nat (int (length (tokens d)) - cursor d))", goal_cases)
  case 1
  show ?case by simp
next
  case (2 nest rt d x found d1 y rt2 d2)
  from 2 have nb: "NextBlock nest d = (True, d1)" by simp
  from 2 have sw: "robots_txt_subdirective (rt, d1) = Inr (rt2, d2)" by simp
  from NextBlock_step [OF nb] robots_txt_subdirective_step [OF sw] show ?case by simp
qed

declare robots_txt_block.simps [simp del]

text \<open>
  The body of the outer loop: the \<open>switch d.Val()\<close> of the directive's own block.
  \<open>m.RobotsTxt = new(RobotsTxt)\<close> is filled in place by the inner loop; here the inner
  loop returns the filled value and it is stored afterwards.
\<close>

definition knownagents_subdirective ::
  "Knownagents \<times> Dispenser \<Rightarrow> error + Knownagents \<times> Dispenser" where
  "knownagents_subdirective = (\<lambda>(m, d).
     if Val d = ''robots_txt'' then
       (if RobotsTxt m \<noteq> None then Inl (Err d ''robots_txt is already configured'')
        else (case robots_txt_block (Nesting d) (new_RobotsTxt, d) of
                Inl e \<Rightarrow> Inl e
              | Inr (rt, d1) \<Rightarrow> Inr (m\<lparr>RobotsTxt := Some rt\<rparr>, d1)))
     else if Val d = ''access_token'' then
       (let (ok, d1) = NextArg d in
        if \<not> ok then Inl (ArgErr d1)
        else Inr (m\<lparr>AccessToken := Val d1\<rparr>, d1))
     else Inl (Err d (''unrecognized subdirective '' @ quoted (Val d))))"

lemma robots_txt_block_step:
  "robots_txt_block nest (rt, d) = Inr (rt', d') \<Longrightarrow>
     tokens d' = tokens d \<and> cursor d \<le> cursor d'"
proof (induction nest "(rt, d)" arbitrary: rt d rule: robots_txt_block.induct)
  case (1 nest rt d)
  obtain found d1 where nb: "NextBlock nest d = (found, d1)" by (cases "NextBlock nest d")
  show ?case
  proof (cases found)
    case False
    with nb 1(2) NextBlock_step [OF nb] show ?thesis
      by (simp add: robots_txt_block.simps [of nest rt d])
  next
    case True
    with nb 1(2) obtain rt2 d2
      where sw: "robots_txt_subdirective (rt, d1) = Inr (rt2, d2)"
        and rec: "robots_txt_block nest (rt2, d2) = Inr (rt', d')"
      by (auto simp: robots_txt_block.simps [of nest rt d] split: sum.splits)
    from True have nm: "\<not> \<not> found" by simp
    from 1(1) [OF refl nb [symmetric] nm sw refl rec]
      NextBlock_step [OF nb] robots_txt_subdirective_step [OF sw]
    show ?thesis by simp
  qed
qed

lemma knownagents_subdirective_step:
  assumes "knownagents_subdirective (m, d) = Inr (m', d')"
  shows "tokens d' = tokens d \<and> cursor d \<le> cursor d'"
proof -
  obtain ok d1 where n1: "NextArg d = (ok, d1)" by (cases "NextArg d")
  from assms n1
  have "(\<exists>rt. robots_txt_block (Nesting d) (new_RobotsTxt, d) = Inr (rt, d')) \<or> (ok \<and> d' = d1)"
    by (auto simp: knownagents_subdirective_def split: if_splits sum.splits)
  with NextArg_step [OF n1] show ?thesis
    by (auto dest: robots_txt_block_step)
qed

text \<open>The outer loop \<open>for nesting := d.Nesting(); d.NextBlock(nesting); { ... }\<close>.\<close>

function knownagents_block ::
  "int \<Rightarrow> Knownagents \<times> Dispenser \<Rightarrow> error + Knownagents \<times> Dispenser" where
  "knownagents_block nest (m, d) =
     (let (found, d1) = NextBlock nest d in
      if \<not> found then Inr (m, d1)
      else (case knownagents_subdirective (m, d1) of
              Inl e \<Rightarrow> Inl e
            | Inr (m2, d2) \<Rightarrow> knownagents_block nest (m2, d2)))"
  by pat_completeness auto
termination
proof (relation "measure (\<lambda>(nest, m, d). nat (int (length (tokens d)) - cursor d))", goal_cases)
  case 1
  show ?case by simp
next
  case (2 nest m d x found d1 y m2 d2)
  from 2 have nb: "NextBlock nest d = (True, d1)" by simp
  from 2 have sw: "knownagents_subdirective (m, d1) = Inr (m2, d2)" by simp
  from NextBlock_step [OF nb] knownagents_subdirective_step [OF sw] show ?case by simp
qed

declare knownagents_block.simps [simp del]

text \<open>
  \<open>UnmarshalCaddyfile\<close>: skip the directive's name, run the outer loop, then the three
  checks that follow it, in the order of the source.
\<close>

definition UnmarshalCaddyfile :: "Knownagents \<Rightarrow> Dispenser \<Rightarrow> error + Knownagents" where
  "UnmarshalCaddyfile m d =
     (let (_, d0) = Next d in
      case knownagents_block (Nesting d0) (m, d0) of
        Inl e \<Rightarrow> Inl e
      | Inr (m1, d1) \<Rightarrow>
          (let (found, d2) = NextArg d1 in
           if found then Inl (Err d2 (''unexpected argument '' @ quoted (Val d2)))
           else if AccessToken m1 = [] then Inl (Err d2 ''missing access token'')
           else (case RobotsTxt m1 of
                   None \<Rightarrow> Inr m1
                 | Some rt \<Rightarrow>
                     if length (AgentTypes rt) = 0 then Inl (Err d2 ''missing agent type filters'')
                     else Inr m1)))"

definition parseCaddyfile :: "Dispenser \<Rightarrow> error + Knownagents" where
  "parseCaddyfile d = UnmarshalCaddyfile zero_Knownagents d"

section \<open>Validation\<close>

text \<open>
  The loop of \<open>Validate\<close> over \<open>m.RobotsTxt.AgentTypes\<close>: it returns at the first label
  that \<open>slices.Contains(allAgentTypes, at)\<close> does not find. Logging is left out. The
  function is the same in both packages.
\<close>

fun validate_agent_types :: "AgentType list \<Rightarrow> error option" where
  "validate_agent_types [] = None"
| "validate_agent_types (at # ats) =
     (if at \<notin> set allAgentTypes then Some (Error (''unrecognized agent type '' @ quoted at))
      else validate_agent_types ats)"

definition Validate :: "Knownagents \<Rightarrow> error option" where
  "Validate m =
     (case RobotsTxt m of
        None \<Rightarrow> None
      | Some rt \<Rightarrow> validate_agent_types (AgentTypes rt))"

definition Darkvisitors_Validate :: "Darkvisitors \<Rightarrow> error option" where
  "Darkvisitors_Validate m =
     (case RobotsTxt m of
        None \<Rightarrow> None
      | Some rt \<Rightarrow> validate_agent_types (AgentTypes rt))"

section \<open>Outbound requests\<close>

text \<open>
  A POST as it is handed to \<open>client.Do\<close>: the address, the two headers that the code
  sets, and the payload before \<open>json.Marshal\<close> (a record of the marshalled fields). What
  the network does with it is outside the module: for the robots.txt query the transport
  is a parameter that returns the body read or the error of \<open>client.Do\<close> or \<open>io.ReadAll\<close>.
\<close>

record 'b Post =
  url :: string
  Authorization :: string
  ContentType :: string
  body :: 'b

record RobotsTxtQuery =
  agent_types :: "AgentType list"
  disallow :: string

record VisitEvent =
  request_path :: string
  request_method :: string
  request_headers :: "string \<rightharpoonup> string list"

definition AnalyticsEndpoint :: string where
  "AnalyticsEndpoint = ''https://api.knownagents.com/visits''"

definition RobotsTxtEndpoint :: string where
  "RobotsTxtEndpoint = ''https://api.knownagents.com/robots-txts''"

definition Darkvisitors_AnalyticsEndpoint :: string where
  "Darkvisitors_AnalyticsEndpoint = ''https://api.darkvisitors.com/visits''"

section \<open>Provisioning\<close>

text \<open>
  \<open>FetchRobotsTxt\<close> of package \<open>caddyknownagents\<close>. The payload is \<open>m.RobotsTxt\<close> without
  its \<open>text\<close> (\<open>None\<close> for a nil pointer, which marshals to \<open>null\<close>); storing the body
  through a nil pointer panics.
\<close>

definition robots_txt_query :: "RobotsTxt \<Rightarrow> RobotsTxtQuery" where
  "robots_txt_query rt = \<lparr>agent_types = AgentTypes rt, disallow = Disallow rt\<rparr>"

definition FetchRobotsTxt ::
  "(RobotsTxtQuery option Post \<Rightarrow> error + string) \<Rightarrow> Knownagents \<Rightarrow> error + Knownagents" where
  "FetchRobotsTxt client m =
     (case client \<lparr>url = RobotsTxtEndpoint,
                   Authorization = ''Bearer '' @ AccessToken m,
                   ContentType = ''application/json'',
                   body = map_option robots_txt_query (RobotsTxt m)\<rparr> of
        Inl err \<Rightarrow> Inl err
      | Inr b \<Rightarrow>
          (case RobotsTxt m of
             None \<Rightarrow> Inl (Panic ''nil pointer dereference'')
           | Some rt \<Rightarrow> Inr (m\<lparr>RobotsTxt := Some (rt\<lparr>text' := b\<rparr>)\<rparr>)))"

text \<open>
  \<open>Provision\<close> of package \<open>caddyknownagents\<close>. The replacer is the host's: \<open>repl\<close> stands
  for the method \<open>ReplaceAll\<close> of \<open>caddy.NewReplacer()\<close>, taking the input and the value
  to write for a placeholder that evaluates to nothing.
\<close>

definition Provision ::
  "(string \<Rightarrow> string \<Rightarrow> string) \<Rightarrow> (RobotsTxtQuery option Post \<Rightarrow> error + string) \<Rightarrow>
     Knownagents \<Rightarrow> error + Knownagents" where
  "Provision repl client m =
     (let m1 = m\<lparr>AccessToken := repl (AccessToken m) []\<rparr> in
      case RobotsTxt m1 of
        None \<Rightarrow> Inr m1
      | Some rt \<Rightarrow>
          (let m2 = (if Disallow rt = [] then m1\<lparr>RobotsTxt := Some (rt\<lparr>Disallow := ''/''\<rparr>)\<rparr>
                     else m1)
           in case FetchRobotsTxt client m2 of
                Inl err \<Rightarrow> Inl err
              | Inr m3 \<Rightarrow> Inr m3))"

section \<open>Handling a request\<close>

text \<open>
  The parts of \<open>*http.Request\<close> that the handler touches: method, \<open>URL.Path\<close>, the header
  map, and the variable table that the host keeps in the request's context
  (\<open>caddyhttp.SetVar\<close> writes into it). The request is passed by pointer, so the next
  handler may change it: it returns the request as it leaves it, together with its error
  and the response writer.
\<close>

record Request =
  Method :: string
  Path :: string
  Header :: "string \<rightharpoonup> string list"
  Vars :: "string \<rightharpoonup> string"

type_synonym 'w Handler = "'w \<Rightarrow> Request \<Rightarrow> error option \<times> 'w \<times> Request"

definition SetVar :: "Request \<Rightarrow> string \<Rightarrow> string \<Rightarrow> Request" where
  "SetVar r key v = r\<lparr>Vars := (Vars r)(key \<mapsto> v)\<rparr>"

text \<open>\<open>Header.Del\<close> removes the canonical form of the key; \<open>Cookie\<close> is canonical.\<close>

definition Header_Del :: "(string \<rightharpoonup> string list) \<Rightarrow> string \<Rightarrow> (string \<rightharpoonup> string list)" where
  "Header_Del h key = h(key := None)"

text \<open>
  The body of the goroutine up to \<open>client.Do\<close>: it reads the request when it runs, that
  is after the next handler has returned.
\<close>

definition visit_post :: "string \<Rightarrow> Knownagents \<Rightarrow> Request \<Rightarrow> VisitEvent Post" where
  "visit_post endpoint m r =
     (let sanitizedHeaders = Header_Del (Header r) ''Cookie'';
          visitEvent = \<lparr>request_path = Path r,
                        request_method = Method r,
                        request_headers = sanitizedHeaders\<rparr>
      in \<lparr>url = endpoint,
          Authorization = ''Bearer '' @ AccessToken m,
          ContentType = ''application/json'',
          body = visitEvent\<rparr>)"

text \<open>
  The first statement of \<open>ServeHTTP\<close>: with a robots.txt block configured, the cached
  text is stored in the variable table under the package's key.
\<close>

definition publish_robots_txt :: "string \<Rightarrow> Knownagents \<Rightarrow> Request \<Rightarrow> Request" where
  "publish_robots_txt key m r =
     (case RobotsTxt m of
        None \<Rightarrow> r
      | Some rt \<Rightarrow> SetVar r key (text' rt))"

text \<open>
  \<open>ServeHTTP\<close> returns its error, the response writer and the request as the next handler
  left them, and the POSTs of the goroutines it started.
\<close>

definition ServeHTTP ::
  "Knownagents \<Rightarrow> 'w \<Rightarrow> Request \<Rightarrow> 'w Handler \<Rightarrow>
     error option \<times> 'w \<times> Request \<times> VisitEvent Post list" where
  "ServeHTTP m w r next =
     (let r1 = publish_robots_txt ''ka_robots_txt'' m r;
          (err, w2, r2) = next w r1
      in case err of
           Some e \<Rightarrow> (Some e, w2, r2, [])
         | None \<Rightarrow> (None, w2, r2, [visit_post AnalyticsEndpoint m r2]))"

definition Darkvisitors_ServeHTTP ::
  "Darkvisitors \<Rightarrow> 'w \<Rightarrow> Request \<Rightarrow> 'w Handler \<Rightarrow>
     error option \<times> 'w \<times> Request \<times> VisitEvent Post list" where
  "Darkvisitors_ServeHTTP m w r next =
     (let r1 = publish_robots_txt ''dv_robots_txt'' m r;
          (err, w2, r2) = next w r1
      in case err of
           Some e \<Rightarrow> (Some e, w2, r2, [])
         | None \<Rightarrow> (None, w2, r2, [visit_post Darkvisitors_AnalyticsEndpoint m r2]))"

section \<open>Example configurations and requests\<close>

text \<open>
  The examples give a configuration as the tokens that the host's lexer makes of its
  text: one token per word or quoted string with the line it stands on, all of one file.
  \<open>ex_test_module\<close>, \<open>ex_test_robots_txt\<close> and \<open>ex_wildcard\<close> are the configurations of the
  three tests of the repository.
\<close>

definition ex_token :: "int \<Rightarrow> string \<Rightarrow> Token" where
  "ex_token l s = \<lparr>File = ''Caddyfile'', imports' = [], Line = l, Text = s, wasQuoted = CHR 0x00\<rparr>"

text \<open>
  \<open>ex_replacer\<close> is a replacer in whose environment \<open>KA_ACCESS_TOKEN\<close> is not set,
  \<open>ex_client\<close> a transport that answers every query, \<open>ex_probe\<close> a handler that copies the
  robots.txt variable it sees into its response, \<open>ex_rewrite\<close> a handler that rewrites the
  request.
\<close>

definition ex_request :: Request where
  "ex_request = \<lparr>Method = ''GET'', Path = ''/private/report'',
                  Header = [''Cookie'' \<mapsto> [''session=abc''], ''User-Agent'' \<mapsto> [''GPTBot/1.0'']],
                  Vars = Map.empty\<rparr>"

definition ex_module :: Knownagents where
  "ex_module = \<lparr>AccessToken = ''aHVudGVyMg=='',
                 RobotsTxt = Some \<lparr>AgentTypes = [''Archiver''], Disallow = ''/'',
                                    text' = ''User-agent: ia_archiver''\<rparr>\<rparr>"

definition ex_probe :: "string option Handler" where
  "ex_probe = (\<lambda>w r. (None, Vars r ''ka_robots_txt'', r))"

definition ex_rewrite :: "unit Handler" where
  "ex_rewrite = (\<lambda>w r. (None, w, r\<lparr>Method := ''HEAD'', Path := ''/report'',
                                   Header := (Header r)(''User-Agent'' := None)\<rparr>))"

definition ex_quoted :: "int \<Rightarrow> string \<Rightarrow> Token" where
  "ex_quoted l s = \<lparr>File = ''Caddyfile'', imports' = [], Line = l, Text = s, wasQuoted = CHR 0x22\<rparr>"

definition ex_test_module :: "Token list" where
  "ex_test_module =
     [ex_token 1 ''knownagents'', ex_token 1 ''{'',
      ex_token 2 ''access_token'', ex_token 2 ''aHVudGVyMg=='',
      ex_token 3 ''}'']"

definition ex_test_robots_txt :: "Token list" where
  "ex_test_robots_txt =
     [ex_token 1 ''knownagents'', ex_token 1 ''{'',
      ex_token 2 ''access_token'', ex_token 2 ''aHVudGVyMg=='',
      ex_token 3 ''robots_txt'', ex_token 3 ''{'',
      ex_token 4 ''agent_types'', ex_quoted 4 ''AI Assistant'', ex_quoted 4 ''AI Search Crawler'',
      ex_quoted 4 ''AI Data Scraper'',
      ex_token 5 ''disallow'', ex_token 5 ''/'',
      ex_token 6 ''}'',
      ex_token 7 ''}'']"

definition ex_wildcard :: "Token list" where
  "ex_wildcard =
     [ex_token 1 ''knownagents'', ex_token 1 ''{'',
      ex_token 2 ''access_token'', ex_token 2 ''aHVudGVyMg=='',
      ex_token 3 ''robots_txt'', ex_token 3 ''{'',
      ex_token 4 ''agent_types'', ex_token 4 ''*'',
      ex_token 5 ''disallow'', ex_token 5 ''/'',
      ex_token 6 ''}'',
      ex_token 7 ''}'']"

definition ex_wildcard_more :: "Token list" where
  "ex_wildcard_more =
     [ex_token 1 ''knownagents'', ex_token 1 ''{'',
      ex_token 2 ''access_token'', ex_token 2 ''aHVudGVyMg=='',
      ex_token 3 ''robots_txt'', ex_token 3 ''{'',
      ex_token 4 ''agent_types'', ex_token 4 ''*'', ex_token 4 ''Archiver'',
      ex_token 5 ''}'',
      ex_token 6 ''}'']"

definition ex_star_second :: "Token list" where
  "ex_star_second =
     [ex_token 1 ''knownagents'', ex_token 1 ''{'',
      ex_token 2 ''access_token'', ex_token 2 ''aHVudGVyMg=='',
      ex_token 3 ''robots_txt'', ex_token 3 ''{'',
      ex_token 4 ''agent_types'', ex_token 4 ''Archiver'', ex_token 4 ''*'',
      ex_token 5 ''}'',
      ex_token 6 ''}'']"

definition ex_star_twice :: "Token list" where
  "ex_star_twice =
     [ex_token 1 ''knownagents'', ex_token 1 ''{'',
      ex_token 2 ''access_token'', ex_token 2 ''aHVudGVyMg=='',
      ex_token 3 ''robots_txt'', ex_token 3 ''{'',
      ex_token 4 ''agent_types'', ex_token 4 ''*'', ex_token 4 ''*'',
      ex_token 5 ''}'',
      ex_token 6 ''}'']"

definition ex_repeated :: "Token list" where
  "ex_repeated =
     [ex_token 1 ''knownagents'', ex_token 1 ''{'',
      ex_token 2 ''access_token'', ex_token 2 ''first'',
      ex_token 3 ''access_token'', ex_token 3 ''second'',
      ex_token 4 ''robots_txt'', ex_token 4 ''{'',
      ex_token 5 ''agent_types'', ex_token 5 ''Archiver'',
      ex_token 6 ''}'',
      ex_token 7 ''robots_txt'', ex_token 7 ''{'',
      ex_token 8 ''agent_types'', ex_token 8 ''Fetcher'',
      ex_token 9 ''}'',
      ex_token 10 ''}'']"

definition ex_nothing_configured :: "Token list" where
  "ex_nothing_configured =
     [ex_token 1 ''knownagents'', ex_token 1 ''{'',
      ex_token 2 ''robots_txt'', ex_token 2 ''{'',
      ex_token 3 ''}'',
      ex_token 4 ''}'']"

definition ex_no_agent_types :: "Token list" where
  "ex_no_agent_types =
     [ex_token 1 ''knownagents'', ex_token 1 ''{'',
      ex_token 2 ''access_token'', ex_token 2 ''aHVudGVyMg=='',
      ex_token 3 ''robots_txt'', ex_token 3 ''{'',
      ex_token 4 ''disallow'', ex_token 4 ''/private'',
      ex_token 5 ''}'',
      ex_token 6 ''}'']"

definition ex_placeholder :: "Token list" where
  "ex_placeholder =
     [ex_token 1 ''knownagents'', ex_token 1 ''{'',
      ex_token 2 ''access_token'', ex_token 2 ''{env.KA_ACCESS_TOKEN}'',
      ex_token 3 ''}'']"

definition ex_replacer :: "string \<Rightarrow> string \<Rightarrow> string" where
  "ex_replacer input fallback = (if input = ''{env.KA_ACCESS_TOKEN}'' then fallback else input)"

definition ex_client :: "RobotsTxtQuery option Post \<Rightarrow> error + string" where
  "ex_client q = Inr ''User-agent: *''"

definition ex_no_disallow :: "Token list" where
  "ex_no_disallow =
     [ex_token 1 ''knownagents'', ex_token 1 ''{'',
      ex_token 2 ''access_token'', ex_token 2 ''aHVudGVyMg=='',
      ex_token 3 ''robots_txt'', ex_token 3 ''{'',
      ex_token 4 ''agent_types'', ex_token 4 ''Archiver'', ex_token 4 ''Fetcher'',
      ex_token 5 ''}'',
      ex_token 6 ''}'']"

text \<open>
  Families of configurations: \<open>a\<close> and \<open>b\<close> are access tokens, \<open>x\<close> is an argument and
  \<open>rest\<close> is whatever tokens follow.
\<close>

definition cfg_wildcard :: "string \<Rightarrow> Token list" where
  "cfg_wildcard a =
     [ex_token 1 ''knownagents'', ex_token 1 ''{'',
      ex_token 2 ''access_token'', ex_token 2 a,
      ex_token 3 ''robots_txt'', ex_token 3 ''{'',
      ex_token 4 ''agent_types'', ex_token 4 ''*'',
      ex_token 5 ''}'',
      ex_token 6 ''}'']"

definition cfg_wildcard_more :: "string \<Rightarrow> Token list \<Rightarrow> Token list" where
  "cfg_wildcard_more x rest =
     [ex_token 1 ''knownagents'', ex_token 1 ''{'',
      ex_token 2 ''robots_txt'', ex_token 2 ''{'',
      ex_token 3 ''agent_types'', ex_token 3 ''*'', ex_token 3 x] @ rest"

definition cfg_star_later :: "string \<Rightarrow> string \<Rightarrow> Token list" where
  "cfg_star_later a x =
     [ex_token 1 ''knownagents'', ex_token 1 ''{'',
      ex_token 2 ''access_token'', ex_token 2 a,
      ex_token 3 ''robots_txt'', ex_token 3 ''{'',
      ex_token 4 ''agent_types'', ex_token 4 x, ex_token 4 ''*'',
      ex_token 5 ''}'',
      ex_token 6 ''}'']"

definition cfg_access_token_twice :: "string \<Rightarrow> string \<Rightarrow> Token list" where
  "cfg_access_token_twice a b =
     [ex_token 1 ''knownagents'', ex_token 1 ''{'',
      ex_token 2 ''access_token'', ex_token 2 a,
      ex_token 3 ''access_token'', ex_token 3 b,
      ex_token 4 ''}'']"

definition cfg_robots_txt_twice :: "Token list \<Rightarrow> Token list" where
  "cfg_robots_txt_twice rest =
     [ex_token 1 ''knownagents'', ex_token 1 ''{'',
      ex_token 2 ''robots_txt'', ex_token 2 ''{'',
      ex_token 3 ''agent_types'', ex_token 3 ''Archiver'',
      ex_token 4 ''}'',
      ex_token 5 ''robots_txt''] @ rest"

section \<open>Properties of validation\<close>

lemma validate_agent_types_accepts:
  "set ats \<subseteq> set allAgentTypes \<Longrightarrow> validate_agent_types ats = None"
  by (induction ats) simp_all

lemma validate_agent_types_rejects:
  "\<not> set ats \<subseteq> set allAgentTypes \<Longrightarrow>
     \<exists>at. List.find (\<lambda>a. a \<notin> set allAgentTypes) ats = Some at \<and>
          validate_agent_types ats = Some (Error (''unrecognized agent type '' @ quoted at))"
  by (induction ats) auto

text \<open>
  Claim C6. With a robots.txt block configured, \<open>Validate\<close> returns no error when every
  label of \<open>agent_types\<close> is in the catalog, whatever the labels and their number; when a label
  is outside the catalog it returns the error \<open>unrecognized agent type '<label>'\<close> for the
  first such label of the list. Both packages.
\<close>

theorem Validate_agent_types:
  assumes "RobotsTxt m = Some rt"
  shows "(set (AgentTypes rt) \<subseteq> set allAgentTypes \<longrightarrow>
            Validate m = None \<and> Darkvisitors_Validate m = None) \<and>
         (\<not> set (AgentTypes rt) \<subseteq> set allAgentTypes \<longrightarrow>
            (\<exists>at. List.find (\<lambda>a. a \<notin> set allAgentTypes) (AgentTypes rt) = Some at \<and>
                  at \<in> set (AgentTypes rt) \<and> at \<notin> set allAgentTypes \<and>
                  Validate m = Some (Error (''unrecognized agent type '' @ quoted at)) \<and>
                  Darkvisitors_Validate m = Some (Error (''unrecognized agent type '' @ quoted at))))"
proof (intro conjI impI)
  assume "set (AgentTypes rt) \<subseteq> set allAgentTypes"
  then have "validate_agent_types (AgentTypes rt) = None"
    by (rule validate_agent_types_accepts)
  with assms show "Validate m = None" by (simp add: Validate_def)
  from \<open>validate_agent_types (AgentTypes rt) = None\<close> assms
  show "Darkvisitors_Validate m = None" by (simp add: Darkvisitors_Validate_def)
next
  assume "\<not> set (AgentTypes rt) \<subseteq> set allAgentTypes"
  then obtain at where f: "List.find (\<lambda>a. a \<notin> set allAgentTypes) (AgentTypes rt) = Some at"
    and v: "validate_agent_types (AgentTypes rt) = Some (Error (''unrecognized agent type '' @ quoted at))"
    using validate_agent_types_rejects by blast
  from f have "at \<in> set (AgentTypes rt) \<and> at \<notin> set allAgentTypes"
    by (auto simp: find_Some_iff)
  with f v assms
  show "\<exists>at. List.find (\<lambda>a. a \<notin> set allAgentTypes) (AgentTypes rt) = Some at \<and>
             at \<in> set (AgentTypes rt) \<and> at \<notin> set allAgentTypes \<and>
             Validate m = Some (Error (''unrecognized agent type '' @ quoted at)) \<and>
             Darkvisitors_Validate m = Some (Error (''unrecognized agent type '' @ quoted at))"
    by (auto simp: Validate_def Darkvisitors_Validate_def)
qed

lemmas agent_type_defs =
  allAgentTypes_def AIAssistant_def AIDataScraper_def AISearchCrawler_def Archiver_def
  DeveloperHelper_def Fetcher_def HeadlessBrowser_def IntelligenceGatherer_def Scraper_def
  SearchEngineCrawlers_def SEOCrawler_def Uncategorized_def UndocumentedAIAgent_def

theorem Validate_agent_types_witness:
  "Validate \<lparr>AccessToken = ''aHVudGVyMg=='',
             RobotsTxt = Some \<lparr>AgentTypes = allAgentTypes, Disallow = ''/'', text' = []\<rparr>\<rparr> = None \<and>
   Validate \<lparr>AccessToken = ''aHVudGVyMg=='',
             RobotsTxt = Some \<lparr>AgentTypes = [''Archiver'', ''Bogus'', ''*''], Disallow = ''/'',
                                text' = []\<rparr>\<rparr>
     = Some (Error (''unrecognized agent type '' @ quoted ''Bogus''))"
proof -
  let ?ok = "\<lparr>AgentTypes = allAgentTypes, Disallow = ''/'', text' = []\<rparr>"
  let ?bad = "\<lparr>AgentTypes = [''Archiver'', ''Bogus'', ''*''], Disallow = ''/'', text' = []\<rparr>"
  have 1: "RobotsTxt \<lparr>AccessToken = ''aHVudGVyMg=='', RobotsTxt = Some ?ok\<rparr> = Some ?ok" by simp
  have 2: "RobotsTxt \<lparr>AccessToken = ''aHVudGVyMg=='', RobotsTxt = Some ?bad\<rparr> = Some ?bad" by simp
  have 3: "\<not> set (AgentTypes ?bad) \<subseteq> set allAgentTypes" by (simp add: agent_type_defs)
  have 4: "List.find (\<lambda>a. a \<notin> set allAgentTypes) (AgentTypes ?bad) = Some ''Bogus''"
    by (simp add: agent_type_defs)
  from Validate_agent_types [OF 1] Validate_agent_types [OF 2] 3 4 show ?thesis by auto
qed

section \<open>Properties of request handling\<close>

text \<open>
  Claim C1. When the next handler returns an error, \<open>ServeHTTP\<close> returns this very error,
  with the writer and the request as the handler left them, and starts no goroutine: no
  visit event is built and nothing is sent. Both packages.
\<close>

theorem ServeHTTP_next_error:
  "(next w (publish_robots_txt ''ka_robots_txt'' m r) = (Some e, w', r') \<longrightarrow>
      ServeHTTP m w r next = (Some e, w', r', [])) \<and>
   (next w (publish_robots_txt ''dv_robots_txt'' m r) = (Some e, w', r') \<longrightarrow>
      Darkvisitors_ServeHTTP m w r next = (Some e, w', r', []))"
  by (simp add: ServeHTTP_def Darkvisitors_ServeHTTP_def)

theorem ServeHTTP_next_error_witness:
  "ServeHTTP ex_module (0::nat) ex_request (\<lambda>w r. (Some (Error ''upstream failed''), w + 1, r))
     = (Some (Error ''upstream failed''), 1, publish_robots_txt ''ka_robots_txt'' ex_module ex_request, []) \<and>
   Darkvisitors_ServeHTTP ex_module (0::nat) ex_request (\<lambda>w r. (Some (Error ''upstream failed''), w + 1, r))
     = (Some (Error ''upstream failed''), 1, publish_robots_txt ''dv_robots_txt'' ex_module ex_request, [])"
  using ServeHTTP_next_error [of "\<lambda>w r. (Some (Error ''upstream failed''), w + 1, r)" "0::nat"
      ex_module ex_request "Error ''upstream failed''" 1
      "publish_robots_txt ''ka_robots_txt'' ex_module ex_request"]
    ServeHTTP_next_error [of "\<lambda>w r. (Some (Error ''upstream failed''), w + 1, r)" "0::nat"
      ex_module ex_request "Error ''upstream failed''" 1
      "publish_robots_txt ''dv_robots_txt'' ex_module ex_request"]
  by simp

text \<open>
  Claim C7. With a robots.txt block configured, the next handler runs on the request whose
  variable table holds the cached text under the package's key, and what \<open>ServeHTTP\<close>
  returns of error, writer and request is what that handler returned: the variable is set
  before the handler is called and nothing is written after it. With no block configured
  the handler runs on the request as it came. This holds for every handler, so also for
  one that reads the variable.
\<close>

theorem ServeHTTP_robots_txt_var:
  "(RobotsTxt m = Some rt \<longrightarrow>
      (case ServeHTTP m w r next of (err, w', r', posts) \<Rightarrow> (err, w', r'))
        = next w (r\<lparr>Vars := (Vars r)(''ka_robots_txt'' \<mapsto> text' rt)\<rparr>) \<and>
      (case Darkvisitors_ServeHTTP m w r next of (err, w', r', posts) \<Rightarrow> (err, w', r'))
        = next w (r\<lparr>Vars := (Vars r)(''dv_robots_txt'' \<mapsto> text' rt)\<rparr>)) \<and>
   (RobotsTxt m = None \<longrightarrow>
      (case ServeHTTP m w r next of (err, w', r', posts) \<Rightarrow> (err, w', r')) = next w r \<and>
      (case Darkvisitors_ServeHTTP m w r next of (err, w', r', posts) \<Rightarrow> (err, w', r')) = next w r)"
  by (auto simp: ServeHTTP_def Darkvisitors_ServeHTTP_def publish_robots_txt_def SetVar_def
      split: prod.splits option.splits)

theorem ServeHTTP_robots_txt_var_witness:
  "(case ServeHTTP ex_module None ex_request ex_probe of (err, w', r', posts) \<Rightarrow> (err, w', r'))
     = (None, Some ''User-agent: ia_archiver'',
        ex_request\<lparr>Vars := [''ka_robots_txt'' \<mapsto> ''User-agent: ia_archiver'']\<rparr>) \<and>
   (case ServeHTTP (ex_module\<lparr>RobotsTxt := None\<rparr>) None ex_request ex_probe of
      (err, w', r', posts) \<Rightarrow> (err, w', r'))
     = (None, None, ex_request)"
proof -
  let ?rt = "\<lparr>AgentTypes = [''Archiver''], Disallow = ''/'', text' = ''User-agent: ia_archiver''\<rparr>"
  have 1: "RobotsTxt ex_module = Some ?rt"
    by (simp add: ex_module_def)
  have 2: "RobotsTxt (ex_module\<lparr>RobotsTxt := None\<rparr>) = None" by simp
  have 3: "Vars ex_request = Map.empty" by (simp add: ex_request_def)
  from ServeHTTP_robots_txt_var [of ex_module ?rt None ex_request ex_probe] 1 3
  have a: "(case ServeHTTP ex_module None ex_request ex_probe of (err, w', r', posts) \<Rightarrow> (err, w', r'))
     = (None, Some ''User-agent: ia_archiver'',
        ex_request\<lparr>Vars := [''ka_robots_txt'' \<mapsto> ''User-agent: ia_archiver'']\<rparr>)"
    by (simp add: ex_probe_def)
  from ServeHTTP_robots_txt_var [of "ex_module\<lparr>RobotsTxt := None\<rparr>" ?rt None ex_request ex_probe] 2 3
  have b: "(case ServeHTTP (ex_module\<lparr>RobotsTxt := None\<rparr>) None ex_request ex_probe of
      (err, w', r', posts) \<Rightarrow> (err, w', r')) = (None, None, ex_request)"
    by (simp add: ex_probe_def)
  from a b show ?thesis by simp
qed

text \<open>
  When the next handler succeeds, exactly one POST is built: to the package's analytics
  endpoint, with the bearer token and the JSON content type, and with the path, the method
  and the headers, \<open>Cookie\<close> removed, of the request as the handler left it.
\<close>

theorem ServeHTTP_next_success:
  "(next w (publish_robots_txt ''ka_robots_txt'' m r) = (None, w', r') \<longrightarrow>
      ServeHTTP m w r next =
        (None, w', r',
         [\<lparr>url = ''https://api.knownagents.com/visits'',
           Authorization = ''Bearer '' @ AccessToken m,
           ContentType = ''application/json'',
           body = \<lparr>request_path = Path r', request_method = Method r',
                    request_headers = (Header r')(''Cookie'' := None)\<rparr>\<rparr>])) \<and>
   (next w (publish_robots_txt ''dv_robots_txt'' m r) = (None, w', r') \<longrightarrow>
      Darkvisitors_ServeHTTP m w r next =
        (None, w', r',
         [\<lparr>url = ''https://api.darkvisitors.com/visits'',
           Authorization = ''Bearer '' @ AccessToken m,
           ContentType = ''application/json'',
           body = \<lparr>request_path = Path r', request_method = Method r',
                    request_headers = (Header r')(''Cookie'' := None)\<rparr>\<rparr>]))"
  by (simp add: ServeHTTP_def Darkvisitors_ServeHTTP_def visit_post_def Header_Del_def
      AnalyticsEndpoint_def Darkvisitors_AnalyticsEndpoint_def)

theorem ServeHTTP_next_success_witness:
  "ServeHTTP (ex_module\<lparr>RobotsTxt := None\<rparr>) None ex_request ex_probe =
     (None, None, ex_request,
      [\<lparr>url = ''https://api.knownagents.com/visits'',
        Authorization = ''Bearer aHVudGVyMg=='',
        ContentType = ''application/json'',
        body = \<lparr>request_path = ''/private/report'', request_method = ''GET'',
                 request_headers = [''User-Agent'' \<mapsto> [''GPTBot/1.0'']]\<rparr>\<rparr>])"
proof -
  have h: "(Header ex_request)(''Cookie'' := None) = [''User-Agent'' \<mapsto> [''GPTBot/1.0'']]"
    by (rule ext) (simp add: ex_request_def)
  have p: "ex_probe None (publish_robots_txt ''ka_robots_txt'' (ex_module\<lparr>RobotsTxt := None\<rparr>)
             ex_request) = (None, None, ex_request)"
    by (simp add: ex_probe_def publish_robots_txt_def ex_request_def)
  from ServeHTTP_next_success [of ex_probe None "ex_module\<lparr>RobotsTxt := None\<rparr>" ex_request
      None ex_request] p h
  show ?thesis by (simp add: ex_request_def ex_module_def)
qed

text \<open>
  Claim C2. The visit event is read from the request after the next handler has returned.
  The request is shared with that handler through a pointer; here the handler rewrites
  method and path and deletes a header, as the host's \<open>method\<close>, \<open>uri\<close> and
  \<open>request_header\<close> handlers do, and the one event sent reports the rewritten values,
  not those of the request that came in.
\<close>

theorem ServeHTTP_reports_rewritten_request:
  "map (request_path \<circ> body) (snd (snd (snd (ServeHTTP ex_module () ex_request ex_rewrite))))
     = [''/report''] \<and>
   map (request_method \<circ> body) (snd (snd (snd (ServeHTTP ex_module () ex_request ex_rewrite))))
     = [''HEAD''] \<and>
   map (\<lambda>p. request_headers (body p) ''User-Agent'')
     (snd (snd (snd (ServeHTTP ex_module () ex_request ex_rewrite)))) = [None] \<and>
   Path ex_request = ''/private/report'' \<and> Method ex_request = ''GET'' \<and>
   Header ex_request ''User-Agent'' = Some [''GPTBot/1.0'']"
  by (simp add: ServeHTTP_def ex_rewrite_def ex_request_def ex_module_def visit_post_def
      Header_Del_def publish_robots_txt_def SetVar_def)

section \<open>Properties of the parser\<close>

text \<open>
  One round of each loop: it stops where \<open>NextBlock\<close> answers \<open>false\<close>, returns the error of
  a subdirective unchanged, and goes on from the state a subdirective leaves. An error of
  the outer loop is the error of \<open>UnmarshalCaddyfile\<close>.
\<close>

lemma robots_txt_block_round:
  "NextBlock nest d = (found, d1) \<Longrightarrow>
     robots_txt_block nest (rt, d) =
       (if \<not> found then Inr (rt, d1)
        else case robots_txt_subdirective (rt, d1) of
               Inl e \<Rightarrow> Inl e
             | Inr (rt2, d2) \<Rightarrow> robots_txt_block nest (rt2, d2))"
  by (simp add: robots_txt_block.simps [of nest rt d])

lemma knownagents_block_round:
  "NextBlock nest d = (found, d1) \<Longrightarrow>
     knownagents_block nest (m, d) =
       (if \<not> found then Inr (m, d1)
        else case knownagents_subdirective (m, d1) of
               Inl e \<Rightarrow> Inl e
             | Inr (m2, d2) \<Rightarrow> knownagents_block nest (m2, d2))"
  by (simp add: knownagents_block.simps [of nest m d])

lemma robots_txt_block_error:
  "Val d = ''robots_txt'' \<Longrightarrow> RobotsTxt m = None \<Longrightarrow>
     robots_txt_block (Nesting d) (new_RobotsTxt, d) = Inl e \<Longrightarrow>
     knownagents_subdirective (m, d) = Inl e"
  by (simp add: knownagents_subdirective_def)

lemma knownagents_block_error:
  "knownagents_block (Nesting (snd (Next d))) (m, snd (Next d)) = Inl e \<Longrightarrow>
     UnmarshalCaddyfile m d = Inl e"
  by (cases "Next d") (simp add: UnmarshalCaddyfile_def)

text \<open>
  The three tests of the repository: the configuration with an access token only, the one
  with a robots.txt block of three quoted agent types, and the one with the wildcard.
\<close>

theorem parse_test_configurations:
  "parseCaddyfile (NewDispenser ex_test_module)
     = Inr \<lparr>AccessToken = ''aHVudGVyMg=='', RobotsTxt = None\<rparr> \<and>
   parseCaddyfile (NewDispenser ex_test_robots_txt)
     = Inr \<lparr>AccessToken = ''aHVudGVyMg=='',
            RobotsTxt = Some \<lparr>AgentTypes = [AIAssistant, AISearchCrawler, AIDataScraper],
                               Disallow = ''/'', text' = []\<rparr>\<rparr> \<and>
   parseCaddyfile (NewDispenser ex_wildcard)
     = Inr \<lparr>AccessToken = ''aHVudGVyMg=='',
            RobotsTxt = Some \<lparr>AgentTypes = allAgentTypes, Disallow = ''/'', text' = []\<rparr>\<rparr>"
  by code_simp

lemmas dispenser_defs =
  NewDispenser_def Next_def NextArg_def NextBlock_def nextOnSameLine_def isNextOnNewLine_def
  NumLineBreaks_def Val_def Nesting_def ex_token_def Err_def ArgErr_def

lemmas parser_defs =
  parseCaddyfile_def UnmarshalCaddyfile_def knownagents_block.simps robots_txt_block.simps
  agent_types_args.simps robots_txt_subdirective_def knownagents_subdirective_def
  new_RobotsTxt_def zero_Knownagents_def Let_def

lemma parse_cfg_wildcard:
  "a \<noteq> [] \<Longrightarrow> a \<noteq> ''{'' \<Longrightarrow>
     parseCaddyfile (NewDispenser (cfg_wildcard a)) =
       Inr \<lparr>AccessToken = a,
            RobotsTxt = Some \<lparr>AgentTypes = allAgentTypes, Disallow = [], text' = []\<rparr>\<rparr>"
  by (simp add: cfg_wildcard_def parser_defs dispenser_defs allAgentTypes_def)

lemma parse_cfg_wildcard_more:
  "x \<noteq> ''{'' \<Longrightarrow>
     parseCaddyfile (NewDispenser (cfg_wildcard_more x rest)) =
       Inl (Error (''unexpected argument '' @ quoted x))"
  by (simp add: cfg_wildcard_more_def parser_defs dispenser_defs)

text \<open>
  Claim C4. In the \<open>robots_txt\<close> block, at the subdirective \<open>agent_types\<close> whose first
  argument is \<open>*\<close>: when no further argument follows on the line, \<open>AgentTypes\<close> becomes the
  whole catalog \<open>allAgentTypes\<close>; when one follows, the subdirective fails with
  \<open>unexpected argument '<that argument>'\<close>. On whole configurations: with any access token
  and \<open>agent_types *\<close> alone in the block, parsing yields the catalog; with any argument
  after the \<open>*\<close>, whatever follows, parsing fails with that error.
\<close>

theorem agent_types_wildcard:
  "(Val d = ''agent_types'' \<and> NextArg d = (True, d1) \<and> Val d1 = ''*'' \<longrightarrow>
      (\<forall>d2. NextArg d1 = (False, d2) \<longrightarrow>
         robots_txt_subdirective (rt, d) = Inr (rt\<lparr>AgentTypes := allAgentTypes\<rparr>, d2)) \<and>
      (\<forall>d2. NextArg d1 = (True, d2) \<longrightarrow>
         robots_txt_subdirective (rt, d) =
           Inl (Error (''unexpected argument '' @ quoted (Val d2))))) \<and>
   (a \<noteq> [] \<and> a \<noteq> ''{'' \<longrightarrow>
      parseCaddyfile (NewDispenser (cfg_wildcard a)) =
        Inr \<lparr>AccessToken = a,
             RobotsTxt = Some \<lparr>AgentTypes = allAgentTypes, Disallow = [], text' = []\<rparr>\<rparr>) \<and>
   (x \<noteq> ''{'' \<longrightarrow>
      parseCaddyfile (NewDispenser (cfg_wildcard_more x rest)) =
        Inl (Error (''unexpected argument '' @ quoted x)))"
proof (intro conjI impI)
  assume "Val d = ''agent_types'' \<and> NextArg d = (True, d1) \<and> Val d1 = ''*''"
  then show "\<forall>d2. NextArg d1 = (False, d2) \<longrightarrow>
      robots_txt_subdirective (rt, d) = Inr (rt\<lparr>AgentTypes := allAgentTypes\<rparr>, d2)"
    and "\<forall>d2. NextArg d1 = (True, d2) \<longrightarrow>
      robots_txt_subdirective (rt, d) = Inl (Error (''unexpected argument '' @ quoted (Val d2)))"
    by (simp_all add: robots_txt_subdirective_def Err_def)
next
  assume "a \<noteq> [] \<and> a \<noteq> ''{''"
  then show "parseCaddyfile (NewDispenser (cfg_wildcard a)) =
        Inr \<lparr>AccessToken = a,
             RobotsTxt = Some \<lparr>AgentTypes = allAgentTypes, Disallow = [], text' = []\<rparr>\<rparr>"
    by (simp add: parse_cfg_wildcard)
next
  assume "x \<noteq> ''{''"
  then show "parseCaddyfile (NewDispenser (cfg_wildcard_more x rest)) =
        Inl (Error (''unexpected argument '' @ quoted x))"
    by (rule parse_cfg_wildcard_more)
qed

theorem agent_types_wildcard_witness:
  "robots_txt_subdirective (new_RobotsTxt, \<lparr>tokens = ex_wildcard, cursor = 6, nesting = 2\<rparr>)
     = Inr (new_RobotsTxt\<lparr>AgentTypes := allAgentTypes\<rparr>,
            \<lparr>tokens = ex_wildcard, cursor = 7, nesting = 2\<rparr>) \<and>
   robots_txt_subdirective (new_RobotsTxt, \<lparr>tokens = ex_wildcard_more, cursor = 6, nesting = 2\<rparr>)
     = Inl (Error (''unexpected argument '' @ quoted ''Archiver'')) \<and>
   parseCaddyfile (NewDispenser (cfg_wildcard ''aHVudGVyMg==''))
     = Inr \<lparr>AccessToken = ''aHVudGVyMg=='',
            RobotsTxt = Some \<lparr>AgentTypes = allAgentTypes, Disallow = [], text' = []\<rparr>\<rparr> \<and>
   parseCaddyfile (NewDispenser (cfg_wildcard_more ''Archiver'' [ex_token 4 ''}'', ex_token 5 ''}'']))
     = Inl (Error (''unexpected argument '' @ quoted ''Archiver''))"
proof -
  let ?d = "\<lparr>tokens = ex_wildcard, cursor = 6, nesting = 2\<rparr>"
  let ?da = "\<lparr>tokens = ex_wildcard, cursor = 7, nesting = 2\<rparr>"
  let ?e = "\<lparr>tokens = ex_wildcard_more, cursor = 6, nesting = 2\<rparr>"
  let ?ea = "\<lparr>tokens = ex_wildcard_more, cursor = 7, nesting = 2\<rparr>"
  let ?eb = "\<lparr>tokens = ex_wildcard_more, cursor = 8, nesting = 2\<rparr>"
  have a: "Val ?d = ''agent_types''" "NextArg ?d = (True, ?da)" "Val ?da = ''*''"
    "NextArg ?da = (False, ?da)"
    by code_simp+
  have b: "Val ?e = ''agent_types''" "NextArg ?e = (True, ?ea)" "Val ?ea = ''*''"
    "NextArg ?ea = (True, ?eb)" "Val ?eb = ''Archiver''"
    by code_simp+
  have c: "''aHVudGVyMg=='' \<noteq> [] \<and> ''aHVudGVyMg=='' \<noteq> ''{''" "''Archiver'' \<noteq> ''{''"
    by simp_all
  from agent_types_wildcard [where d = ?d and ?d1.0 = ?da and rt = new_RobotsTxt
      and a = "''aHVudGVyMg==''" and x = "''Archiver''" and rest = "[ex_token 4 ''}'', ex_token 5 ''}'']"]
    agent_types_wildcard [where d = ?e and ?d1.0 = ?ea and rt = new_RobotsTxt
      and a = "''aHVudGVyMg==''" and x = "''Archiver''" and rest = "[ex_token 4 ''}'', ex_token 5 ''}'']"]
    a b c
  show ?thesis by simp
qed

lemma RemainingArgs_loop_prefix:
  "RemainingArgs_loop (pre @ args, d) =
     (pre @ fst (RemainingArgs_loop (args, d)), snd (RemainingArgs_loop (args, d)))"
proof (induction "(args, d)" arbitrary: args d rule: RemainingArgs_loop.induct)
  case (1 args d)
  obtain found d1 where n: "NextArg d = (found, d1)" by (cases "NextArg d")
  show ?case
  proof (cases found)
    case True
    from 1 [OF refl n [symmetric] True] n True show ?thesis
      by (simp add: RemainingArgs_loop.simps [of args d] RemainingArgs_loop.simps [of "pre @ args" d])
  next
    case False
    with n show ?thesis
      by (simp add: RemainingArgs_loop.simps [of args d] RemainingArgs_loop.simps [of "pre @ args" d])
  qed
qed

lemma RemainingArgs_loop_append:
  "RemainingArgs_loop (args, d) =
     (args @ fst (RemainingArgs_loop ([], d)), snd (RemainingArgs_loop ([], d)))"
  using RemainingArgs_loop_prefix [of args "[]" d] by simp

lemma agent_types_args_RemainingArgs:
  "agent_types_args (rt, d) =
     (rt\<lparr>AgentTypes := AgentTypes rt @ fst (RemainingArgs d)\<rparr>, snd (RemainingArgs d))"
proof (induction "(rt, d)" arbitrary: rt d rule: agent_types_args.induct)
  case (1 rt d)
  obtain found d1 where n: "NextArg d = (found, d1)" by (cases "NextArg d")
  show ?case
  proof (cases found)
    case True
    have r: "RemainingArgs d = (Val d1 # fst (RemainingArgs d1), snd (RemainingArgs d1))"
      using n True RemainingArgs_loop_append [of "[Val d1]" d1]
      by (simp add: RemainingArgs_def RemainingArgs_loop.simps [of "[]" d])
    from 1 [OF refl n [symmetric] True] n True r show ?thesis
      by (simp add: agent_types_args.simps [of rt d])
  next
    case False
    with n show ?thesis
      by (simp add: agent_types_args.simps [of rt d] RemainingArgs_def
          RemainingArgs_loop.simps [of "[]" d])
  qed
qed

lemma validate_agent_types_rejects':
  "\<not> set ats \<subseteq> set allAgentTypes \<Longrightarrow>
     \<exists>at. at \<in> set ats \<and> at \<notin> set allAgentTypes \<and>
          validate_agent_types ats = Some (Error (''unrecognized agent type '' @ quoted at))"
  by (induction ats) auto

lemma star_not_agent_type: "''*'' \<notin> set allAgentTypes"
  by (simp add: agent_type_defs)

lemma parse_cfg_star_later:
  "a \<noteq> [] \<Longrightarrow> a \<noteq> ''{'' \<Longrightarrow> x \<noteq> ''*'' \<Longrightarrow> x \<noteq> ''{'' \<Longrightarrow>
     parseCaddyfile (NewDispenser (cfg_star_later a x)) =
       Inr \<lparr>AccessToken = a,
            RobotsTxt = Some \<lparr>AgentTypes = [x, ''*''], Disallow = [], text' = []\<rparr>\<rparr>"
  by (simp add: cfg_star_later_def parser_defs dispenser_defs)

text \<open>
  Claim C9, amended. At the subdirective \<open>agent_types\<close> whose first argument is not \<open>*\<close>,
  parsing the subdirective succeeds and appends the first argument and every remaining
  argument of the line, as they are, to \<open>AgentTypes\<close>; a \<open>*\<close> among the remaining ones is
  appended as a label, and \<open>Validate\<close> then rejects the list with an
  \<open>unrecognized agent type\<close> error. On whole configurations: with any access token and
  \<open>agent_types x *\<close> for any \<open>x\<close> other than \<open>*\<close>, parsing succeeds with the labels \<open>x\<close> and
  \<open>*\<close>, and \<open>Validate\<close> rejects the result.
\<close>

theorem agent_types_literal_star:
  "(Val d = ''agent_types'' \<and> NextArg d = (True, d1) \<and> Val d1 \<noteq> ''*'' \<longrightarrow>
      robots_txt_subdirective (rt, d) =
        Inr (rt\<lparr>AgentTypes := AgentTypes rt @ Val d1 # fst (RemainingArgs d1)\<rparr>,
             snd (RemainingArgs d1)) \<and>
      (''*'' \<in> set (fst (RemainingArgs d1)) \<longrightarrow>
         (\<exists>at. at \<notin> set allAgentTypes \<and>
            Validate (m\<lparr>RobotsTxt :=
               Some (rt\<lparr>AgentTypes := AgentTypes rt @ Val d1 # fst (RemainingArgs d1)\<rparr>)\<rparr>)
              = Some (Error (''unrecognized agent type '' @ quoted at))))) \<and>
   (a \<noteq> [] \<and> a \<noteq> ''{'' \<and> x \<noteq> ''*'' \<and> x \<noteq> ''{'' \<longrightarrow>
      parseCaddyfile (NewDispenser (cfg_star_later a x)) =
        Inr \<lparr>AccessToken = a,
             RobotsTxt = Some \<lparr>AgentTypes = [x, ''*''], Disallow = [], text' = []\<rparr>\<rparr> \<and>
      (\<exists>at. at \<notin> set allAgentTypes \<and>
         Validate \<lparr>AccessToken = a,
                   RobotsTxt = Some \<lparr>AgentTypes = [x, ''*''], Disallow = [], text' = []\<rparr>\<rparr>
           = Some (Error (''unrecognized agent type '' @ quoted at))))"
proof (intro conjI impI)
  assume h: "Val d = ''agent_types'' \<and> NextArg d = (True, d1) \<and> Val d1 \<noteq> ''*''"
  then show "robots_txt_subdirective (rt, d) =
           Inr (rt\<lparr>AgentTypes := AgentTypes rt @ Val d1 # fst (RemainingArgs d1)\<rparr>,
                snd (RemainingArgs d1))"
    by (simp add: robots_txt_subdirective_def agent_types_args_RemainingArgs)
  assume "''*'' \<in> set (fst (RemainingArgs d1))"
  with star_not_agent_type
  have "\<not> set (AgentTypes rt @ Val d1 # fst (RemainingArgs d1)) \<subseteq> set allAgentTypes"
    by auto
  from validate_agent_types_rejects' [OF this]
  show "\<exists>at. at \<notin> set allAgentTypes \<and>
               Validate (m\<lparr>RobotsTxt :=
                  Some (rt\<lparr>AgentTypes := AgentTypes rt @ Val d1 # fst (RemainingArgs d1)\<rparr>)\<rparr>)
                 = Some (Error (''unrecognized agent type '' @ quoted at))"
    by (auto simp: Validate_def)
next
  assume h: "a \<noteq> [] \<and> a \<noteq> ''{'' \<and> x \<noteq> ''*'' \<and> x \<noteq> ''{''"
  then show "parseCaddyfile (NewDispenser (cfg_star_later a x)) =
        Inr \<lparr>AccessToken = a,
             RobotsTxt = Some \<lparr>AgentTypes = [x, ''*''], Disallow = [], text' = []\<rparr>\<rparr>"
    by (simp add: parse_cfg_star_later)
  from star_not_agent_type have "\<not> set [x, ''*''] \<subseteq> set allAgentTypes" by simp
  from validate_agent_types_rejects' [OF this]
  show "\<exists>at. at \<notin> set allAgentTypes \<and>
         Validate \<lparr>AccessToken = a,
                   RobotsTxt = Some \<lparr>AgentTypes = [x, ''*''], Disallow = [], text' = []\<rparr>\<rparr>
           = Some (Error (''unrecognized agent type '' @ quoted at))"
    by (auto simp: Validate_def)
qed

theorem agent_types_literal_star_witness:
  "robots_txt_subdirective (new_RobotsTxt, \<lparr>tokens = ex_star_second, cursor = 6, nesting = 2\<rparr>)
     = Inr (new_RobotsTxt\<lparr>AgentTypes := [''Archiver'', ''*'']\<rparr>,
            \<lparr>tokens = ex_star_second, cursor = 8, nesting = 2\<rparr>) \<and>
   parseCaddyfile (NewDispenser (cfg_star_later ''aHVudGVyMg=='' ''Archiver''))
     = Inr \<lparr>AccessToken = ''aHVudGVyMg=='',
            RobotsTxt = Some \<lparr>AgentTypes = [''Archiver'', ''*''], Disallow = [], text' = []\<rparr>\<rparr> \<and>
   Validate \<lparr>AccessToken = ''aHVudGVyMg=='',
             RobotsTxt = Some \<lparr>AgentTypes = [''Archiver'', ''*''], Disallow = [], text' = []\<rparr>\<rparr>
     = Some (Error (''unrecognized agent type '' @ quoted ''*''))"
proof -
  let ?d = "\<lparr>tokens = ex_star_second, cursor = 6, nesting = 2\<rparr>"
  let ?da = "\<lparr>tokens = ex_star_second, cursor = 7, nesting = 2\<rparr>"
  let ?db = "\<lparr>tokens = ex_star_second, cursor = 8, nesting = 2\<rparr>"
  have a: "Val ?d = ''agent_types''" "NextArg ?d = (True, ?da)" "Val ?da \<noteq> ''*''"
    by code_simp+
  have b: "Val ?da = ''Archiver''" "RemainingArgs ?da = ([''*''], ?db)"
    by code_simp+
  have c: "''aHVudGVyMg=='' \<noteq> [] \<and> ''aHVudGVyMg=='' \<noteq> ''{'' \<and>
           ''Archiver'' \<noteq> ''*'' \<and> ''Archiver'' \<noteq> ''{''"
    by simp
  have v: "Validate \<lparr>AccessToken = ''aHVudGVyMg=='',
             RobotsTxt = Some \<lparr>AgentTypes = [''Archiver'', ''*''], Disallow = [], text' = []\<rparr>\<rparr>
     = Some (Error (''unrecognized agent type '' @ quoted ''*''))"
    by code_simp
  from agent_types_literal_star [where d = ?d and ?d1.0 = ?da and rt = new_RobotsTxt
      and a = "''aHVudGVyMg==''" and x = "''Archiver''"] a b c v
  show ?thesis by (simp add: new_RobotsTxt_def)
qed

text \<open>
  Claim C9 as stated fails for the argument list \<open>* *\<close>: the second \<open>*\<close> stands in a
  non-first position, yet parsing does not succeed.
\<close>

theorem agent_types_star_twice_fails:
  "parseCaddyfile (NewDispenser ex_star_twice) = Inl (Error (''unexpected argument '' @ quoted ''*''))"
  by code_simp

lemma parse_cfg_access_token_twice:
  "a \<noteq> ''{'' \<Longrightarrow> b \<noteq> ''{'' \<Longrightarrow> b \<noteq> [] \<Longrightarrow>
     parseCaddyfile (NewDispenser (cfg_access_token_twice a b)) =
       Inr \<lparr>AccessToken = b, RobotsTxt = None\<rparr>"
  by (simp add: cfg_access_token_twice_def parser_defs dispenser_defs)

lemma parse_cfg_robots_txt_twice:
  "parseCaddyfile (NewDispenser (cfg_robots_txt_twice rest)) =
     Inl (Error ''robots_txt is already configured'')"
  by (simp add: cfg_robots_txt_twice_def parser_defs dispenser_defs)

text \<open>
  Claim C10. In the directive's block, a \<open>robots_txt\<close> subdirective met when a robots.txt
  block is already configured fails with \<open>robots_txt is already configured\<close>, and a first
  one that succeeds leaves it configured; an \<open>access_token\<close> subdirective with an
  argument succeeds whatever token was stored before and stores its argument in its place.
  On whole configurations: a second \<open>robots_txt\<close> after a first block makes parsing fail
  with that error, whatever follows it, and of two \<open>access_token\<close> subdirectives the
  second one's argument is the token parsed.
\<close>

theorem repeated_subdirectives:
  "(Val d = ''robots_txt'' \<and> RobotsTxt m \<noteq> None \<longrightarrow>
      knownagents_subdirective (m, d) = Inl (Error ''robots_txt is already configured'')) \<and>
   (Val d = ''robots_txt'' \<and> RobotsTxt m = None \<and>
      knownagents_subdirective (m, d) = Inr (m', d') \<longrightarrow>
      RobotsTxt m' \<noteq> None \<and> AccessToken m' = AccessToken m) \<and>
   (Val d = ''access_token'' \<and> NextArg d = (True, d1) \<longrightarrow>
      knownagents_subdirective (m, d) = Inr (m\<lparr>AccessToken := Val d1\<rparr>, d1)) \<and>
   parseCaddyfile (NewDispenser (cfg_robots_txt_twice rest)) =
     Inl (Error ''robots_txt is already configured'') \<and>
   (a \<noteq> ''{'' \<and> b \<noteq> ''{'' \<and> b \<noteq> [] \<longrightarrow>
      parseCaddyfile (NewDispenser (cfg_access_token_twice a b)) =
        Inr \<lparr>AccessToken = b, RobotsTxt = None\<rparr>)"
proof (intro conjI impI)
  assume "Val d = ''robots_txt'' \<and> RobotsTxt m \<noteq> None"
  then show "knownagents_subdirective (m, d) = Inl (Error ''robots_txt is already configured'')"
    by (auto simp: knownagents_subdirective_def Err_def)
next
  assume h: "Val d = ''robots_txt'' \<and> RobotsTxt m = None \<and>
      knownagents_subdirective (m, d) = Inr (m', d')"
  then show "RobotsTxt m' \<noteq> None" and "AccessToken m' = AccessToken m"
    by (auto simp: knownagents_subdirective_def split: sum.splits)
next
  assume "Val d = ''access_token'' \<and> NextArg d = (True, d1)"
  then show "knownagents_subdirective (m, d) = Inr (m\<lparr>AccessToken := Val d1\<rparr>, d1)"
    by (simp add: knownagents_subdirective_def)
next
  show "parseCaddyfile (NewDispenser (cfg_robots_txt_twice rest)) =
     Inl (Error ''robots_txt is already configured'')"
    by (rule parse_cfg_robots_txt_twice)
next
  assume "a \<noteq> ''{'' \<and> b \<noteq> ''{'' \<and> b \<noteq> []"
  then show "parseCaddyfile (NewDispenser (cfg_access_token_twice a b)) =
        Inr \<lparr>AccessToken = b, RobotsTxt = None\<rparr>"
    by (simp add: parse_cfg_access_token_twice)
qed

theorem repeated_subdirectives_witness:
  "knownagents_subdirective
     (\<lparr>AccessToken = ''second'', RobotsTxt = Some (new_RobotsTxt\<lparr>AgentTypes := [''Archiver'']\<rparr>)\<rparr>,
      \<lparr>tokens = ex_repeated, cursor = 11, nesting = 1\<rparr>)
     = Inl (Error ''robots_txt is already configured'') \<and>
   knownagents_subdirective
     (\<lparr>AccessToken = ''second'', RobotsTxt = None\<rparr>, \<lparr>tokens = ex_repeated, cursor = 6, nesting = 1\<rparr>)
     = Inr (\<lparr>AccessToken = ''second'',
             RobotsTxt = Some (new_RobotsTxt\<lparr>AgentTypes := [''Archiver'']\<rparr>)\<rparr>,
            \<lparr>tokens = ex_repeated, cursor = 10, nesting = 1\<rparr>) \<and>
   knownagents_subdirective
     (\<lparr>AccessToken = ''first'', RobotsTxt = None\<rparr>, \<lparr>tokens = ex_repeated, cursor = 4, nesting = 1\<rparr>)
     = Inr (\<lparr>AccessToken = ''second'', RobotsTxt = None\<rparr>,
            \<lparr>tokens = ex_repeated, cursor = 5, nesting = 1\<rparr>) \<and>
   parseCaddyfile (NewDispenser (cfg_access_token_twice ''first'' ''second''))
     = Inr \<lparr>AccessToken = ''second'', RobotsTxt = None\<rparr> \<and>
   parseCaddyfile (NewDispenser (cfg_robots_txt_twice [ex_token 5 ''{'', ex_token 6 ''}'', ex_token 7 ''}'']))
     = Inl (Error ''robots_txt is already configured'')"
proof -
  let ?mc = "\<lparr>AccessToken = ''second'',
              RobotsTxt = Some (new_RobotsTxt\<lparr>AgentTypes := [''Archiver'']\<rparr>)\<rparr>"
  let ?mz = "\<lparr>AccessToken = ''second'', RobotsTxt = None\<rparr>"
  let ?mf = "\<lparr>AccessToken = ''first'', RobotsTxt = None\<rparr>"
  let ?dc = "\<lparr>tokens = ex_repeated, cursor = 6, nesting = 1\<rparr>"
  let ?dj = "\<lparr>tokens = ex_repeated, cursor = 10, nesting = 1\<rparr>"
  let ?dk = "\<lparr>tokens = ex_repeated, cursor = 11, nesting = 1\<rparr>"
  let ?da = "\<lparr>tokens = ex_repeated, cursor = 4, nesting = 1\<rparr>"
  let ?db = "\<lparr>tokens = ex_repeated, cursor = 5, nesting = 1\<rparr>"
  let ?rest = "[ex_token 5 ''{'', ex_token 6 ''}'', ex_token 7 ''}'']"
  have a1: "Val ?dk = ''robots_txt''" by code_simp
  have a3: "Val ?da = ''access_token''" by code_simp
  have a4: "NextArg ?da = (True, ?db)" by code_simp
  have a5: "Val ?db = ''second''" by code_simp
  have a6: "knownagents_subdirective (?mz, ?dc) = Inr (?mc, ?dj)" by code_simp
  have b: "RobotsTxt ?mc \<noteq> None" by simp
  have c: "''first'' \<noteq> ''{'' \<and> ''second'' \<noteq> ''{'' \<and> ''second'' \<noteq> []" by simp
  from repeated_subdirectives [where d = ?dk and m = ?mc and ?d1.0 = ?db and rest = ?rest
      and a = "''first''" and b = "''second''"] a1 b c
  have 1: "knownagents_subdirective (?mc, ?dk) = Inl (Error ''robots_txt is already configured'')"
    and 4: "parseCaddyfile (NewDispenser (cfg_access_token_twice ''first'' ''second''))
              = Inr \<lparr>AccessToken = ''second'', RobotsTxt = None\<rparr>"
    and 5: "parseCaddyfile (NewDispenser (cfg_robots_txt_twice ?rest))
              = Inl (Error ''robots_txt is already configured'')"
    by simp_all
  from repeated_subdirectives [where d = ?da and m = ?mf and ?d1.0 = ?db and rest = ?rest
      and a = "''first''" and b = "''second''"] a3 a4 a5
  have 3: "knownagents_subdirective (?mf, ?da) = Inr (?mz, ?db)" by simp
  from 1 a6 3 4 5 show ?thesis by simp
qed

text \<open>
  Claim C5, amended. Once the loop over the block has ended without an error, the result
  is decided by three checks in this order: a further argument on the line fails with
  \<open>unexpected argument\<close>; else an empty access token fails with \<open>missing access token\<close>;
  else a robots.txt block with no agent types fails with \<open>missing agent type filters\<close>;
  otherwise parsing succeeds with the value built.
\<close>

theorem UnmarshalCaddyfile_checks:
  assumes "knownagents_block (Nesting (snd (Next d))) (m, snd (Next d)) = Inr (m1, d1)"
  shows "UnmarshalCaddyfile m d =
           (if fst (NextArg d1)
              then Inl (Error (''unexpected argument '' @ quoted (Val (snd (NextArg d1)))))
            else if AccessToken m1 = [] then Inl (Error ''missing access token'')
            else if RobotsTxt m1 \<noteq> None \<and> AgentTypes (the (RobotsTxt m1)) = []
              then Inl (Error ''missing agent type filters'')
            else Inr m1)"
  using assms
  by (auto simp: UnmarshalCaddyfile_def Err_def split: prod.splits option.splits)

text \<open>
  Claim C5 as stated fails where both values are missing: the loop ends with a robots.txt
  block whose agent types are empty, and the error is \<open>missing access token\<close>, not
  \<open>missing agent type filters\<close>.
\<close>

theorem empty_agent_types_missing_token:
  "knownagents_block 0 (zero_Knownagents, \<lparr>tokens = ex_nothing_configured, cursor = 0, nesting = 0\<rparr>)
     = Inr (\<lparr>AccessToken = [], RobotsTxt = Some \<lparr>AgentTypes = [], Disallow = [], text' = []\<rparr>\<rparr>,
            \<lparr>tokens = ex_nothing_configured, cursor = 5, nesting = 0\<rparr>) \<and>
   UnmarshalCaddyfile zero_Knownagents (NewDispenser ex_nothing_configured)
     = Inl (Error ''missing access token'') \<and>
   UnmarshalCaddyfile zero_Knownagents (NewDispenser ex_nothing_configured)
     \<noteq> Inl (Error ''missing agent type filters'')"
  by code_simp

theorem UnmarshalCaddyfile_checks_witness:
  "UnmarshalCaddyfile zero_Knownagents (NewDispenser ex_no_agent_types)
     = Inl (Error ''missing agent type filters'')"
proof -
  let ?d = "NewDispenser ex_no_agent_types"
  let ?mf = "\<lparr>AccessToken = ''aHVudGVyMg=='',
              RobotsTxt = Some \<lparr>AgentTypes = [], Disallow = ''/private'', text' = []\<rparr>\<rparr>"
  let ?dn = "\<lparr>tokens = ex_no_agent_types, cursor = 9, nesting = 0\<rparr>"
  have a: "knownagents_block (Nesting (snd (Next ?d))) (zero_Knownagents, snd (Next ?d)) = Inr (?mf, ?dn)"
    by code_simp
  have b: "fst (NextArg ?dn) = False" by code_simp
  from UnmarshalCaddyfile_checks [OF a] b show ?thesis by simp
qed

section \<open>Properties of provisioning\<close>

lemma UnmarshalCaddyfile_AccessToken:
  "UnmarshalCaddyfile m0 d = Inr m \<Longrightarrow> AccessToken m \<noteq> []"
  by (auto simp: UnmarshalCaddyfile_def split: prod.splits sum.splits if_splits option.splits)

lemma FetchRobotsTxt_result:
  "FetchRobotsTxt client m = Inr m' \<Longrightarrow>
     AccessToken m' = AccessToken m \<and>
     (\<exists>rt b. RobotsTxt m = Some rt \<and> RobotsTxt m' = Some (rt\<lparr>text' := b\<rparr>))"
  by (auto simp: FetchRobotsTxt_def split: sum.splits option.splits)

lemma FetchRobotsTxt_error:
  "FetchRobotsTxt client m = Inl e \<Longrightarrow> RobotsTxt m \<noteq> None \<Longrightarrow> \<exists>q. client q = Inl e"
  by (auto simp: FetchRobotsTxt_def split: sum.splits option.splits)

lemma Provision_None:
  "RobotsTxt m = None \<Longrightarrow> Provision repl client m = Inr (m\<lparr>AccessToken := repl (AccessToken m) []\<rparr>)"
  by (simp add: Provision_def)

lemma Provision_result:
  "Provision repl client m = Inr m' \<Longrightarrow> AccessToken m' = repl (AccessToken m) []"
  by (auto simp: Provision_def Let_def split: option.splits sum.splits if_splits
      dest!: FetchRobotsTxt_result)

lemma Provision_error:
  "Provision repl client m = Inl e \<Longrightarrow> RobotsTxt m \<noteq> None \<and> (\<exists>q. client q = Inl e)"
  by (auto simp: Provision_def Let_def split: option.splits sum.splits if_splits
      dest!: FetchRobotsTxt_error)

text \<open>
  Claim C8. \<open>Provision\<close> stores \<open>repl.ReplaceAll(m.AccessToken, "")\<close> as the access token
  and does not look at the result: with no robots.txt block it always succeeds, and with
  one its only error is the transport's. So for a module that \<open>UnmarshalCaddyfile\<close>
  accepted, whose token is therefore not empty, and whose token the replacer turns into
  the empty string, provisioning succeeds with an empty \<open>AccessToken\<close>.
\<close>

theorem Provision_access_token:
  "(\<forall>m'. Provision repl client m = Inr m' \<longrightarrow> AccessToken m' = repl (AccessToken m) []) \<and>
   (RobotsTxt m = None \<longrightarrow>
      Provision repl client m = Inr (m\<lparr>AccessToken := repl (AccessToken m) []\<rparr>)) \<and>
   (\<forall>e. Provision repl client m = Inl e \<longrightarrow> RobotsTxt m \<noteq> None \<and> (\<exists>q. client q = Inl e)) \<and>
   (\<forall>m0 d m'. UnmarshalCaddyfile m0 d = Inr m \<and> repl (AccessToken m) [] = [] \<and>
        Provision repl client m = Inr m' \<longrightarrow>
      AccessToken m \<noteq> [] \<and> AccessToken m' = [])"
  using Provision_result [of repl client m] Provision_None [of m repl client]
    Provision_error [of repl client m] UnmarshalCaddyfile_AccessToken [of _ _ m]
  by (intro conjI allI impI) auto

theorem Provision_access_token_witness:
  "parseCaddyfile (NewDispenser ex_placeholder)
     = Inr \<lparr>AccessToken = ''{env.KA_ACCESS_TOKEN}'', RobotsTxt = None\<rparr> \<and>
   Provision ex_replacer ex_client \<lparr>AccessToken = ''{env.KA_ACCESS_TOKEN}'', RobotsTxt = None\<rparr>
     = Inr \<lparr>AccessToken = [], RobotsTxt = None\<rparr>"
proof -
  let ?m = "\<lparr>AccessToken = ''{env.KA_ACCESS_TOKEN}'', RobotsTxt = None\<rparr>"
  have a: "parseCaddyfile (NewDispenser ex_placeholder) = Inr ?m" by code_simp
  have b: "RobotsTxt ?m = None" by simp
  have c: "ex_replacer (AccessToken ?m) [] = []" by (simp add: ex_replacer_def)
  from Provision_access_token [of ex_replacer ex_client ?m] b c
  have "Provision ex_replacer ex_client ?m = Inr \<lparr>AccessToken = [], RobotsTxt = None\<rparr>"
    by simp
  with a show ?thesis by simp
qed

lemma Val_no_disallow:
  "\<forall>t\<in>set (tokens d). Text t \<noteq> ''disallow'' \<Longrightarrow> Val d \<noteq> ''disallow''"
  by (auto simp: Val_def)

lemma agent_types_args_Disallow:
  "agent_types_args (rt, d) = (rt', d') \<Longrightarrow> Disallow rt' = Disallow rt"
proof (induction "(rt, d)" arbitrary: rt d rule: agent_types_args.induct)
  case (1 rt d)
  obtain found d1 where n: "NextArg d = (found, d1)" by (cases "NextArg d")
  show ?case
  proof (cases found)
    case True
    with n 1(2)
    have "agent_types_args (rt\<lparr>AgentTypes := AgentTypes rt @ [Val d1]\<rparr>, d1) = (rt', d')"
      by (simp add: agent_types_args.simps [of rt d])
    from 1(1) [OF refl n [symmetric] True this] show ?thesis by simp
  next
    case False
    with n 1(2) show ?thesis by (simp add: agent_types_args.simps [of rt d])
  qed
qed

lemma robots_txt_subdirective_Disallow:
  assumes "robots_txt_subdirective (rt, d) = Inr (rt', d')" and "Val d \<noteq> ''disallow''"
  shows "Disallow rt' = Disallow rt"
proof -
  obtain ok d1 where n1: "NextArg d = (ok, d1)" by (cases "NextArg d")
  obtain found d2 where n2: "NextArg d1 = (found, d2)" by (cases "NextArg d1")
  obtain rt3 d3
    where r: "agent_types_args (rt\<lparr>AgentTypes := AgentTypes rt @ [Val d1]\<rparr>, d1) = (rt3, d3)"
    by (cases "agent_types_args (rt\<lparr>AgentTypes := AgentTypes rt @ [Val d1]\<rparr>, d1)")
  from assms n1 n2 r have "rt' = rt\<lparr>AgentTypes := allAgentTypes\<rparr> \<or> rt' = rt3"
    by (auto simp: robots_txt_subdirective_def split: if_splits)
  with agent_types_args_Disallow [OF r] show ?thesis by auto
qed

lemma robots_txt_block_Disallow:
  "robots_txt_block nest (rt, d) = Inr (rt', d') \<Longrightarrow>
     \<forall>t\<in>set (tokens d). Text t \<noteq> ''disallow'' \<Longrightarrow> Disallow rt' = Disallow rt"
proof (induction nest "(rt, d)" arbitrary: rt d rule: robots_txt_block.induct)
  case (1 nest rt d)
  obtain found d1 where nb: "NextBlock nest d = (found, d1)" by (cases "NextBlock nest d")
  show ?case
  proof (cases found)
    case False
    with nb 1(2) show ?thesis by (simp add: robots_txt_block.simps [of nest rt d])
  next
    case True
    with nb 1(2) obtain rt2 d2
      where sw: "robots_txt_subdirective (rt, d1) = Inr (rt2, d2)"
        and rec: "robots_txt_block nest (rt2, d2) = Inr (rt', d')"
      by (auto simp: robots_txt_block.simps [of nest rt d] split: sum.splits)
    from True have nm: "\<not> \<not> found" by simp
    from NextBlock_step [OF nb] 1(3) have t1: "\<forall>t\<in>set (tokens d1). Text t \<noteq> ''disallow''" by simp
    with robots_txt_subdirective_step [OF sw]
    have t2: "\<forall>t\<in>set (tokens d2). Text t \<noteq> ''disallow''" by simp
    from robots_txt_subdirective_Disallow [OF sw Val_no_disallow [OF t1]]
      1(1) [OF refl nb [symmetric] nm sw refl rec t2]
    show ?thesis by simp
  qed
qed

text \<open>The invariant of the outer loop: no robots.txt block yet, or one whose \<open>Disallow\<close> is empty.\<close>

definition Disallow_unset :: "Knownagents \<Rightarrow> bool" where
  "Disallow_unset m = (case RobotsTxt m of None \<Rightarrow> True | Some rt \<Rightarrow> Disallow rt = [])"

lemma knownagents_subdirective_Disallow:
  assumes "knownagents_subdirective (m, d) = Inr (m', d')"
    and "\<forall>t\<in>set (tokens d). Text t \<noteq> ''disallow''"
    and "Disallow_unset m"
  shows "Disallow_unset m'"
proof -
  obtain ok d1 where n1: "NextArg d = (ok, d1)" by (cases "NextArg d")
  from assms(1) n1
  have "(\<exists>rt. robots_txt_block (Nesting d) (new_RobotsTxt, d) = Inr (rt, d') \<and>
              m' = m\<lparr>RobotsTxt := Some rt\<rparr>) \<or> m' = m\<lparr>AccessToken := Val d1\<rparr>"
    by (auto simp: knownagents_subdirective_def split: if_splits sum.splits)
  then show ?thesis
  proof
    assume "\<exists>rt. robots_txt_block (Nesting d) (new_RobotsTxt, d) = Inr (rt, d') \<and>
              m' = m\<lparr>RobotsTxt := Some rt\<rparr>"
    then obtain rt where b: "robots_txt_block (Nesting d) (new_RobotsTxt, d) = Inr (rt, d')"
      and m': "m' = m\<lparr>RobotsTxt := Some rt\<rparr>" by blast
    from robots_txt_block_Disallow [OF b assms(2)] m' show ?thesis
      by (simp add: Disallow_unset_def new_RobotsTxt_def)
  next
    assume "m' = m\<lparr>AccessToken := Val d1\<rparr>"
    with assms(3) show ?thesis by (simp add: Disallow_unset_def)
  qed
qed

lemma knownagents_block_Disallow:
  "knownagents_block nest (m, d) = Inr (m', d') \<Longrightarrow>
     \<forall>t\<in>set (tokens d). Text t \<noteq> ''disallow'' \<Longrightarrow> Disallow_unset m \<Longrightarrow> Disallow_unset m'"
proof (induction nest "(m, d)" arbitrary: m d rule: knownagents_block.induct)
  case (1 nest m d)
  obtain found d1 where nb: "NextBlock nest d = (found, d1)" by (cases "NextBlock nest d")
  show ?case
  proof (cases found)
    case False
    with nb 1(2,4) show ?thesis by (simp add: knownagents_block.simps [of nest m d])
  next
    case True
    with nb 1(2) obtain m2 d2
      where sw: "knownagents_subdirective (m, d1) = Inr (m2, d2)"
        and rec: "knownagents_block nest (m2, d2) = Inr (m', d')"
      by (auto simp: knownagents_block.simps [of nest m d] split: sum.splits)
    from True have nm: "\<not> \<not> found" by simp
    from NextBlock_step [OF nb] 1(3) have t1: "\<forall>t\<in>set (tokens d1). Text t \<noteq> ''disallow''" by simp
    with knownagents_subdirective_step [OF sw]
    have t2: "\<forall>t\<in>set (tokens d2). Text t \<noteq> ''disallow''" by simp
    from knownagents_subdirective_Disallow [OF sw t1 1(4)]
      1(1) [OF refl nb [symmetric] nm sw refl rec t2]
    show ?thesis by simp
  qed
qed

lemma UnmarshalCaddyfile_Disallow:
  assumes "UnmarshalCaddyfile m d = Inr m'"
    and "\<forall>t\<in>set (tokens d). Text t \<noteq> ''disallow''"
    and "Disallow_unset m"
  shows "Disallow_unset m'"
proof -
  obtain b d0 where n: "Next d = (b, d0)" by (cases "Next d")
  from assms(1) n obtain d1 where kb: "knownagents_block (Nesting d0) (m, d0) = Inr (m', d1)"
    by (auto simp: UnmarshalCaddyfile_def split: sum.splits prod.splits if_splits option.splits)
  from Next_step [OF n] assms(2) have "\<forall>t\<in>set (tokens d0). Text t \<noteq> ''disallow''" by simp
  from knownagents_block_Disallow [OF kb this assms(3)] show ?thesis .
qed

lemma UnmarshalCaddyfile_AgentTypes:
  "UnmarshalCaddyfile m d = Inr m' \<Longrightarrow> RobotsTxt m' = Some rt \<Longrightarrow> AgentTypes rt \<noteq> []"
  by (auto simp: UnmarshalCaddyfile_def split: sum.splits prod.splits if_splits option.splits)

lemma Provision_Disallow:
  assumes "Provision repl client m = Inr m'" and "RobotsTxt m = Some rt"
  shows "\<exists>b. RobotsTxt m' =
            Some (rt\<lparr>Disallow := (if Disallow rt = [] then ''/'' else Disallow rt), text' := b\<rparr>)"
  using assms
  by (auto simp: Provision_def Let_def FetchRobotsTxt_def split: sum.splits if_splits)

text \<open>
  Claim C3, amended. Parsing a configuration with no \<open>disallow\<close> token that yields a
  robots.txt block yields agent types and an empty \<open>Disallow\<close>; the default is applied by
  \<open>Provision\<close>: whenever it succeeds on the parsed module, \<open>Disallow\<close> is \<open>/\<close> and the agent
  types are unchanged.
\<close>

theorem default_disallow_in_Provision:
  assumes "\<forall>t\<in>set (tokens d). Text t \<noteq> ''disallow''"
    and "parseCaddyfile d = Inr m"
    and "RobotsTxt m = Some rt"
  shows "AgentTypes rt \<noteq> [] \<and> Disallow rt = [] \<and>
         (\<forall>m'. Provision repl client m = Inr m' \<longrightarrow>
            (\<exists>rt'. RobotsTxt m' = Some rt' \<and> AgentTypes rt' = AgentTypes rt \<and> Disallow rt' = ''/''))"
proof (intro conjI allI impI)
  from assms(2,3) show "AgentTypes rt \<noteq> []"
    unfolding parseCaddyfile_def by (rule UnmarshalCaddyfile_AgentTypes)
  have z: "Disallow_unset zero_Knownagents"
    by (simp add: Disallow_unset_def zero_Knownagents_def)
  from assms(2) have "UnmarshalCaddyfile zero_Knownagents d = Inr m"
    by (simp add: parseCaddyfile_def)
  from UnmarshalCaddyfile_Disallow [OF this assms(1) z] have "Disallow_unset m" .
  with assms(3) show d: "Disallow rt = []" by (simp add: Disallow_unset_def)
  fix m'
  assume "Provision repl client m = Inr m'"
  from Provision_Disallow [OF this assms(3)] d
  show "\<exists>rt'. RobotsTxt m' = Some rt' \<and> AgentTypes rt' = AgentTypes rt \<and> Disallow rt' = ''/''"
    by auto
qed

text \<open>
  Claim C3 as stated fails: the parser leaves \<open>Disallow\<close> empty for a block with
  \<open>agent_types Archiver Fetcher\<close> and no \<open>disallow\<close>.
\<close>

theorem parser_leaves_disallow_empty:
  "parseCaddyfile (NewDispenser ex_no_disallow)
     = Inr \<lparr>AccessToken = ''aHVudGVyMg=='',
            RobotsTxt = Some \<lparr>AgentTypes = [''Archiver'', ''Fetcher''], Disallow = [], text' = []\<rparr>\<rparr> \<and>
   parseCaddyfile (NewDispenser ex_no_disallow)
     \<noteq> Inr \<lparr>AccessToken = ''aHVudGVyMg=='',
            RobotsTxt = Some \<lparr>AgentTypes = [''Archiver'', ''Fetcher''], Disallow = ''/'', text' = []\<rparr>\<rparr>"
  by code_simp

theorem default_disallow_in_Provision_witness:
  "Provision ex_replacer ex_client
     \<lparr>AccessToken = ''aHVudGVyMg=='',
      RobotsTxt = Some \<lparr>AgentTypes = [''Archiver'', ''Fetcher''], Disallow = [], text' = []\<rparr>\<rparr>
     = Inr \<lparr>AccessToken = ''aHVudGVyMg=='',
            RobotsTxt = Some \<lparr>AgentTypes = [''Archiver'', ''Fetcher''], Disallow = ''/'',
                               text' = ''User-agent: *''\<rparr>\<rparr>"
proof -
  let ?rt = "\<lparr>AgentTypes = [''Archiver'', ''Fetcher''], Disallow = [], text' = []\<rparr>"
  let ?m = "\<lparr>AccessToken = ''aHVudGVyMg=='', RobotsTxt = Some ?rt\<rparr>"
  let ?p = "\<lparr>AccessToken = ''aHVudGVyMg=='',
            RobotsTxt = Some \<lparr>AgentTypes = [''Archiver'', ''Fetcher''], Disallow = ''/'',
                               text' = ''User-agent: *''\<rparr>\<rparr>"
  have a: "\<forall>t\<in>set (tokens (NewDispenser ex_no_disallow)). Text t \<noteq> ''disallow''"
    by (simp add: NewDispenser_def ex_no_disallow_def ex_token_def)
  have b: "parseCaddyfile (NewDispenser ex_no_disallow) = Inr ?m" by code_simp
  have c: "RobotsTxt ?m = Some ?rt" by simp
  have p: "Provision ex_replacer ex_client ?m = Inr ?p"
    by (simp add: Provision_def FetchRobotsTxt_def ex_replacer_def ex_client_def)
  from default_disallow_in_Provision [OF a b c, of ex_replacer ex_client] p
  show ?thesis by simp
qed

end
